theory Spec2Isabelle
  imports Complex_Main
begin

section \<open>The step-16 program: data model\<close>

text \<open>
  This theory embeds \<^verbatim>\<open>examples/step-16/step-16.cc\<close>: the class \<^verbatim>\<open>LaplaceProblem<dim>\<close>
  with its member functions \<^verbatim>\<open>setup_system\<close>, \<^verbatim>\<open>assemble_system\<close>,
  \<^verbatim>\<open>assemble_multigrid\<close>, \<^verbatim>\<open>solve\<close>, \<^verbatim>\<open>output_results\<close>, \<^verbatim>\<open>run\<close>, and \<^verbatim>\<open>main\<close>.

  Numbers: \<^verbatim>\<open>double\<close> is idealised as \<^typ>\<open>real\<close> (its rounding is not modelled);
  \<^verbatim>\<open>float\<close>, the entry type of the level matrices, is the type \<open>float32\<close> below
  with the rounding of every conversion and addition. Counters of type \<^verbatim>\<open>unsigned int\<close> are \<^typ>\<open>nat\<close>; the one subtraction that
  can wrap (\<^verbatim>\<open>nlevels-1\<close>) is written out in \<open>unsigned_minus\<close>.

  Errors: an exception or failed assertion is the \<open>Inl\<close> branch of a sum.
\<close>

datatype error =
  ExcIndexRange nat nat nat
| NoConvergence nat real

definition bind_error :: "error + 'a \<Rightarrow> ('a \<Rightarrow> error + 'b) \<Rightarrow> error + 'b" where
  "bind_error r f = (case r of Inl e \<Rightarrow> Inl e | Inr x \<Rightarrow> f x)"

definition unsigned_minus :: "nat \<Rightarrow> nat \<Rightarrow> nat" where
  "unsigned_minus a b = (if b \<le> a then a - b else a + 2 ^ 32 - b)"

subsection \<open>Single precision\<close>

text \<open>
  The values of a \<^verbatim>\<open>float\<close> (IEEE 754 binary32): the finite ones are \<open>m * 2^e\<close> with an
  integer \<open>m\<close>, \<open>|m| < 2^24\<close>, and \<open>-149 \<le> e \<le> 104\<close>; then the two infinities and
  not-a-number. The two zeros are not told apart.
\<close>

datatype float32 = Finite real | PlusInfinity | MinusInfinity | NaN



text \<open>
  The conversion \<^verbatim>\<open>double\<close> to \<^verbatim>\<open>float\<close>, in the default rounding mode (to nearest, ties
  to even): the exponent is the least \<open>e \<ge> -149\<close> with \<open>|x| < 2^(e+24)\<close>, capped at 104;
  the significand is \<open>x / 2^e\<close> rounded to an integer; a value that rounds beyond the
  largest finite number becomes an infinity.
\<close>

function exponent_search :: "int \<Rightarrow> real \<Rightarrow> int" where
  "exponent_search e x =
     (if 104 \<le> e \<or> \<bar>x\<bar> < 2 powi (e + 24) then e else exponent_search (e + 1) x)"
  by pat_completeness auto
termination
  by (relation "measure (\<lambda>(e, x). nat (104 - e))") auto

declare exponent_search.simps [simp del]

definition round_half_even :: "real \<Rightarrow> int" where
  "round_half_even y =
     (let f = \<lfloor>y\<rfloor>; d = y - of_int f
      in if d < 1 / 2 then f else if 1 / 2 < d then f + 1 else if even f then f else f + 1)"

definition float_round :: "real \<Rightarrow> float32" where
  "float_round x =
     (let e = exponent_search (- 149) x; m = round_half_even (x / 2 powi e)
      in if 2 ^ 24 \<le> \<bar>m\<bar> \<and> e = 104
         then (if 0 < x then PlusInfinity else MinusInfinity)
         else Finite (of_int m * 2 powi e))"

text \<open>\<^verbatim>\<open>float\<close> addition: the exact sum, rounded.\<close>

fun float_add :: "float32 \<Rightarrow> float32 \<Rightarrow> float32" where
  "float_add (Finite a) (Finite b) = float_round (a + b)"
| "float_add NaN y = NaN"
| "float_add x NaN = NaN"
| "float_add PlusInfinity MinusInfinity = NaN"
| "float_add MinusInfinity PlusInfinity = NaN"
| "float_add PlusInfinity y = PlusInfinity"
| "float_add x PlusInfinity = PlusInfinity"
| "float_add MinusInfinity y = MinusInfinity"
| "float_add x MinusInfinity = MinusInfinity"

instantiation float32 :: "{zero, plus}"
begin

definition zero_float32 :: float32 where
  "zero_float32 = Finite 0"

definition plus_float32 :: "float32 \<Rightarrow> float32 \<Rightarrow> float32" where
  "plus_float32 = float_add"

instance ..

end

subsection \<open>Vectors, sparsity patterns, sparse matrices\<close>

text \<open>\<^verbatim>\<open>Vector<double>\<close>: a size and the entries. \<^verbatim>\<open>reinit (n)\<close> resizes and zeroes.\<close>

record Vector =
  vec_size :: nat
  vec_val :: "nat \<Rightarrow> real"

definition Vector_default :: Vector where
  "Vector_default = \<lparr>vec_size = 0, vec_val = (\<lambda>i. 0)\<rparr>"

definition Vector_reinit :: "nat \<Rightarrow> Vector" where
  "Vector_reinit n = \<lparr>vec_size = n, vec_val = (\<lambda>i. 0)\<rparr>"

text \<open>\<^verbatim>\<open>v(i) += a\<close>\<close>

definition Vector_add :: "Vector \<Rightarrow> nat \<Rightarrow> real \<Rightarrow> Vector" where
  "Vector_add v i a = v\<lparr>vec_val := (vec_val v)(i := vec_val v i + a)\<rparr>"

text \<open>
  \<^verbatim>\<open>SparsityPattern\<close>: \<^verbatim>\<open>reinit (m, n, max_per_row)\<close> gives an empty \<open>m \<times> n\<close> pattern,
  the sparsity builder adds index pairs, \<^verbatim>\<open>compress ()\<close> freezes it.
\<close>

record SparsityPattern =
  sp_rows :: nat
  sp_cols :: nat
  sp_max_per_row :: nat
  sp_entries :: "(nat \<times> nat) list"
  sp_compressed :: bool

definition SparsityPattern_default :: SparsityPattern where
  "SparsityPattern_default =
     \<lparr>sp_rows = 0, sp_cols = 0, sp_max_per_row = 0, sp_entries = [], sp_compressed = False\<rparr>"

definition SparsityPattern_reinit :: "nat \<Rightarrow> nat \<Rightarrow> nat \<Rightarrow> SparsityPattern" where
  "SparsityPattern_reinit m n max_per_row =
     \<lparr>sp_rows = m, sp_cols = n, sp_max_per_row = max_per_row, sp_entries = [],
      sp_compressed = False\<rparr>"

definition SparsityPattern_add :: "nat \<times> nat \<Rightarrow> SparsityPattern \<Rightarrow> SparsityPattern" where
  "SparsityPattern_add ij sp = sp\<lparr>sp_entries := sp_entries sp @ [ij]\<rparr>"

definition SparsityPattern_compress :: "SparsityPattern \<Rightarrow> SparsityPattern" where
  "SparsityPattern_compress sp = sp\<lparr>sp_compressed := True\<rparr>"

text \<open>
  \<^verbatim>\<open>SparseMatrix<number>\<close>: the dimensions of the pattern it was initialised with and
  the entries, of type \<open>number\<close> (\<^verbatim>\<open>double\<close> for the global matrix, \<^verbatim>\<open>float\<close> for the
  level matrices). \<^verbatim>\<open>reinit (sparsity)\<close> takes the dimensions of the pattern and sets
  every entry to zero; \<^verbatim>\<open>add (i, j, value)\<close> takes a \<open>number\<close> and adds it to one entry, in
  the arithmetic of \<open>number\<close>. The sparsity builder enters every pair of indices that
  share a cell, so each \<^verbatim>\<open>add\<close> of the assemblers meets a stored entry.
\<close>

record 'number SparseMatrix =
  sm_rows :: nat
  sm_cols :: nat
  sm_val :: "nat \<Rightarrow> nat \<Rightarrow> 'number"

definition SparseMatrix_default :: "('number::zero) SparseMatrix" where
  "SparseMatrix_default = \<lparr>sm_rows = 0, sm_cols = 0, sm_val = (\<lambda>i j. 0)\<rparr>"

definition SparseMatrix_reinit :: "SparsityPattern \<Rightarrow> ('number::zero) SparseMatrix" where
  "SparseMatrix_reinit sp = \<lparr>sm_rows = sp_rows sp, sm_cols = sp_cols sp, sm_val = (\<lambda>i j. 0)\<rparr>"

definition SparseMatrix_add ::
  "('number::plus) SparseMatrix \<Rightarrow> nat \<Rightarrow> nat \<Rightarrow> 'number \<Rightarrow> 'number SparseMatrix" where
  "SparseMatrix_add A i j a = A\<lparr>sm_val := (sm_val A)(i := (sm_val A i)(j := sm_val A i j + a))\<rparr>"

subsection \<open>Level-indexed containers\<close>

text \<open>
  Modelled from the spec: \<^verbatim>\<open>MGLevelObject<Object>\<close> (its header is not part of the
  example). The spec describes it as an array indexed by level in \<open>[0, L-1]\<close>, sized at
  setup time, each slot an independent object. \<^verbatim>\<open>resize (min, max)\<close> drops the old
  slots and creates one default object per level of \<open>[min, max]\<close>; \<^verbatim>\<open>operator[]\<close> at a
  level outside the range is an index-range error.
\<close>

record 'a MGLevelObject =
  minlevel :: nat
  objects :: "'a list"

definition MGLevelObject_default :: "'a MGLevelObject" where
  "MGLevelObject_default = \<lparr>minlevel = 0, objects = []\<rparr>"

definition MGLevelObject_resize :: "nat \<Rightarrow> nat \<Rightarrow> 'a \<Rightarrow> 'a MGLevelObject" where
  "MGLevelObject_resize new_minlevel new_maxlevel dflt =
     \<lparr>minlevel = new_minlevel, objects = replicate (Suc new_maxlevel - new_minlevel) dflt\<rparr>"

definition MGLevelObject_in_range :: "'a MGLevelObject \<Rightarrow> nat \<Rightarrow> bool" where
  "MGLevelObject_in_range obj i = (minlevel obj \<le> i \<and> i < minlevel obj + length (objects obj))"

definition MGLevelObject_get :: "'a MGLevelObject \<Rightarrow> nat \<Rightarrow> error + 'a" where
  "MGLevelObject_get obj i =
     (if MGLevelObject_in_range obj i then Inr (objects obj ! (i - minlevel obj))
      else Inl (ExcIndexRange i (minlevel obj) (minlevel obj + length (objects obj))))"

text \<open>A member call \<^verbatim>\<open>obj[i].f (...)\<close> that mutates the slot in place.\<close>

definition MGLevelObject_modify ::
  "'a MGLevelObject \<Rightarrow> nat \<Rightarrow> ('a \<Rightarrow> 'a) \<Rightarrow> error + 'a MGLevelObject" where
  "MGLevelObject_modify obj i f =
     bind_error (MGLevelObject_get obj i)
       (\<lambda>x. Inr (obj\<lparr>objects := (objects obj)[i - minlevel obj := f x]\<rparr>))"

subsection \<open>Mesh hierarchy\<close>

text \<open>
  Modelled from the spec: \<^verbatim>\<open>Triangulation<dim>\<close>, \<^verbatim>\<open>GridGenerator::hyper_cube\<close> and
  \<^verbatim>\<open>refine_global\<close> (library code outside the example). The mesh is a hierarchy of
  levels \<open>0..L-1\<close>, each holding cells; a cell is active (a leaf) or refined. The
  base mesh is a single cell; one global refinement splits every active cell into
  its \<open>2^dim\<close> children on the next level. A cell is named by its level and its index
  on that level, and cells are visited level by level.
\<close>

datatype cell_state = Active | Refined

record Triangulation =
  levels :: "cell_state list list"

type_synonym cell_id = "nat \<times> nat"

definition Triangulation_default :: Triangulation where
  "Triangulation_default = \<lparr>levels = []\<rparr>"

definition n_levels :: "Triangulation \<Rightarrow> nat" where
  "n_levels t = length (levels t)"

definition n_cells :: "Triangulation \<Rightarrow> nat" where
  "n_cells t = sum_list (map length (levels t))"

definition n_active_cells :: "Triangulation \<Rightarrow> nat" where
  "n_active_cells t = sum_list (map (\<lambda>cs. length (filter (\<lambda>c. c = Active) cs)) (levels t))"

definition cells_on_level :: "Triangulation \<Rightarrow> nat \<Rightarrow> cell_id list" where
  "cells_on_level t l = map (\<lambda>k. (l, k)) [0..<length (levels t ! l)]"

definition all_cells :: "Triangulation \<Rightarrow> cell_id list" where
  "all_cells t = concat (map (cells_on_level t) [0..<n_levels t])"

definition is_active :: "Triangulation \<Rightarrow> cell_id \<Rightarrow> bool" where
  "is_active t c = (levels t ! fst c ! snd c = Active)"

definition active_cells :: "Triangulation \<Rightarrow> cell_id list" where
  "active_cells t = filter (is_active t) (all_cells t)"

definition hyper_cube :: "nat \<Rightarrow> Triangulation" where
  "hyper_cube sdim = \<lparr>levels = [[Active]]\<rparr>"

definition children_per_cell :: "nat \<Rightarrow> nat" where
  "children_per_cell sdim = 2 ^ sdim"

fun refine_levels :: "nat \<Rightarrow> nat \<Rightarrow> cell_state list list \<Rightarrow> cell_state list list" where
  "refine_levels sdim new_cells [] = (if new_cells = 0 then [] else [replicate new_cells Active])"
| "refine_levels sdim new_cells (cs # ls) =
     (map (\<lambda>c. Refined) cs @ replicate new_cells Active)
       # refine_levels sdim (children_per_cell sdim * length (filter (\<lambda>c. c = Active) cs)) ls"

definition refine_once :: "nat \<Rightarrow> Triangulation \<Rightarrow> Triangulation" where
  "refine_once sdim t = t\<lparr>levels := refine_levels sdim 0 (levels t)\<rparr>"

definition refine_global :: "nat \<Rightarrow> nat \<Rightarrow> Triangulation \<Rightarrow> Triangulation" where
  "refine_global sdim n_times t = (refine_once sdim ^^ n_times) t"

subsection \<open>External collaborators\<close>

text \<open>
  The degree-of-freedom numbering after \<^verbatim>\<open>distribute_dofs\<close>: the global count, the
  count on each level, the bound on couplings, and for each cell its global indices
  (\<^verbatim>\<open>get_dof_indices\<close>) and its level-local indices (\<^verbatim>\<open>get_mg_dof_indices\<close>).
\<close>

record MGDoFHandler =
  n_dofs :: nat
  n_dofs_on_level :: "nat \<Rightarrow> nat"
  max_couplings_between_dofs :: nat
  dof_index :: "cell_id \<Rightarrow> nat \<Rightarrow> nat"
  mg_dof_index :: "cell_id \<Rightarrow> nat \<Rightarrow> nat"

definition MGDoFHandler_default :: MGDoFHandler where
  "MGDoFHandler_default =
     \<lparr>n_dofs = 0, n_dofs_on_level = (\<lambda>l. 0), max_couplings_between_dofs = 0,
      dof_index = (\<lambda>c i. 0), mg_dof_index = (\<lambda>c i. 0)\<rparr>"

text \<open>
  \<^verbatim>\<open>FEValues<dim>\<close> after \<^verbatim>\<open>reinit (cell)\<close>: for basis function \<open>i\<close> and quadrature point
  \<open>q\<close> the gradient (a \<^verbatim>\<open>Tensor<1,dim>\<close>, here its components) and the value, and for
  each \<open>q\<close> the weight times the Jacobian determinant.
\<close>

type_synonym tensor1 = "nat \<Rightarrow> real"

record FEValues =
  shape_grad :: "nat \<Rightarrow> nat \<Rightarrow> tensor1"
  shape_value :: "nat \<Rightarrow> nat \<Rightarrow> real"
  JxW :: "nat \<Rightarrow> real"

text \<open>\<^verbatim>\<open>operator*\<close> of two \<^verbatim>\<open>Tensor<1,dim>\<close>: the dot product.\<close>

definition tensor_dot :: "nat \<Rightarrow> tensor1 \<Rightarrow> tensor1 \<Rightarrow> real" where
  "tensor_dot sdim a b = sum_list (map (\<lambda>d. a d * b d) [0..<sdim])"

type_synonym point = "nat \<Rightarrow> real"

text \<open>
  What the program takes from the library and this theory takes as parameters: the
  finite element and quadrature sizes, the DoF numbering, the shape evaluator, the
  sparsity builders (as the index pairs they enter), the boundary DoFs with their
  support points (in the order of the \<^verbatim>\<open>std::map\<close> keys), the SSOR step, the kernel of
  the conjugate gradient iteration on a state \<open>'k\<close> (start, one step, the residual
  norm and the iterate of a state), and the plot writer.
\<close>

record 'k library =
  fe_dofs_per_cell :: nat
  n_quadrature_points :: nat
  distribute_dofs :: "Triangulation \<Rightarrow> MGDoFHandler"
  fe_values_reinit :: "Triangulation \<Rightarrow> cell_id \<Rightarrow> FEValues"
  make_sparsity_pattern :: "MGDoFHandler \<Rightarrow> (nat \<times> nat) list"
  mg_make_sparsity_pattern :: "MGDoFHandler \<Rightarrow> nat \<Rightarrow> (nat \<times> nat) list"
  boundary_dofs :: "MGDoFHandler \<Rightarrow> nat \<Rightarrow> (nat \<times> point) list"
  precondition_SSOR :: "real SparseMatrix \<Rightarrow> real \<Rightarrow> Vector \<Rightarrow> Vector"
  cg_start :: "real SparseMatrix \<Rightarrow> (Vector \<Rightarrow> Vector) \<Rightarrow> Vector \<Rightarrow> Vector \<Rightarrow> 'k"
  cg_step :: "real SparseMatrix \<Rightarrow> (Vector \<Rightarrow> Vector) \<Rightarrow> 'k \<Rightarrow> 'k"
  cg_residual :: "'k \<Rightarrow> real"
  cg_iterate :: "'k \<Rightarrow> Vector"
  write_gnuplot :: "MGDoFHandler \<Rightarrow> Vector \<Rightarrow> string"

subsection \<open>The problem class\<close>

text \<open>One value per line the program prints to \<^verbatim>\<open>std::cout\<close>.\<close>

datatype console_line =
  Cycle nat
| NumberOfActiveCells nat
| TotalNumberOfCells nat
| NumberOfDegreesOfFreedom nat
| CGIterations nat

text \<open>
  The members of \<^verbatim>\<open>LaplaceProblem<dim>\<close> (the finite element \<^verbatim>\<open>fe\<close> is in the library
  record), and with them the console and the files written so far.
\<close>

record LaplaceProblem =
  triangulation :: Triangulation
  mg_dof_handler :: MGDoFHandler
  sparsity_pattern :: SparsityPattern
  system_matrix :: "real SparseMatrix"
  mg_sparsity :: "SparsityPattern MGLevelObject"
  mg_matrices :: "float32 SparseMatrix MGLevelObject"
  solution :: Vector
  system_rhs :: Vector
  cout :: "console_line list"
  files :: "string \<rightharpoonup> string"

definition LaplaceProblem_init :: LaplaceProblem where
  "LaplaceProblem_init =
     \<lparr>triangulation = Triangulation_default,
      mg_dof_handler = MGDoFHandler_default,
      sparsity_pattern = SparsityPattern_default,
      system_matrix = SparseMatrix_default,
      mg_sparsity = MGLevelObject_default,
      mg_matrices = MGLevelObject_default,
      solution = Vector_default,
      system_rhs = Vector_default,
      cout = [],
      files = Map.empty\<rparr>"


section \<open>The member functions\<close>

text \<open>A \<^verbatim>\<open>for\<close> loop whose body can raise: the first error ends the loop.\<close>

fun for_each :: "('i \<Rightarrow> 's \<Rightarrow> error + 's) \<Rightarrow> 'i list \<Rightarrow> 's \<Rightarrow> error + 's" where
  "for_each body [] s = Inr s"
| "for_each body (x # xs) s = bind_error (body x s) (for_each body xs)"

subsection \<open>setup_system\<close>

text \<open>
  The body of the loop over the levels: \<^verbatim>\<open>mg_sparsity[level]\<close> is reinitialised to the
  level's DoF count, filled by \<^verbatim>\<open>MGTools::make_sparsity_pattern\<close> and compressed, and
  \<^verbatim>\<open>mg_matrices[level]\<close> is reinitialised with it.
\<close>

definition setup_level :: "'k library \<Rightarrow> nat \<Rightarrow> LaplaceProblem \<Rightarrow> error + LaplaceProblem" where
  "setup_level lib level s =
     bind_error
       (MGLevelObject_modify (mg_sparsity s) level
          (\<lambda>old. SparsityPattern_compress
             (fold SparsityPattern_add
                (mg_make_sparsity_pattern lib (mg_dof_handler s) level)
                (SparsityPattern_reinit
                   (n_dofs_on_level (mg_dof_handler s) level)
                   (n_dofs_on_level (mg_dof_handler s) level)
                   (max_couplings_between_dofs (mg_dof_handler s))))))
       (\<lambda>sparsities.
          bind_error (MGLevelObject_get sparsities level)
            (\<lambda>sp.
               bind_error
                 (MGLevelObject_modify (mg_matrices s) level (\<lambda>old. SparseMatrix_reinit sp))
                 (\<lambda>matrices. Inr (s\<lparr>mg_sparsity := sparsities, mg_matrices := matrices\<rparr>))))"

definition setup_system :: "'k library \<Rightarrow> LaplaceProblem \<Rightarrow> error + LaplaceProblem" where
  "setup_system lib s0 =
     (let s1 = s0\<lparr>mg_dof_handler := distribute_dofs lib (triangulation s0)\<rparr>;
          s2 = s1\<lparr>cout := cout s1 @ [NumberOfDegreesOfFreedom (n_dofs (mg_dof_handler s1))]\<rparr>;
          s3 = s2\<lparr>sparsity_pattern :=
                    SparsityPattern_compress
                      (fold SparsityPattern_add
                         (make_sparsity_pattern lib (mg_dof_handler s2))
                         (SparsityPattern_reinit
                            (n_dofs (mg_dof_handler s2))
                            (n_dofs (mg_dof_handler s2))
                            (max_couplings_between_dofs (mg_dof_handler s2))))\<rparr>;
          s4 = s3\<lparr>system_matrix := SparseMatrix_reinit (sparsity_pattern s3)\<rparr>;
          s5 = s4\<lparr>solution := Vector_reinit (n_dofs (mg_dof_handler s4))\<rparr>;
          s6 = s5\<lparr>system_rhs := Vector_reinit (n_dofs (mg_dof_handler s5))\<rparr>;
          nlevels = n_levels (triangulation s6);
          s7 = s6\<lparr>mg_sparsity :=
                    MGLevelObject_resize 0 (unsigned_minus nlevels 1) SparsityPattern_default\<rparr>;
          s8 = s7\<lparr>mg_matrices :=
                    MGLevelObject_resize 0 (unsigned_minus nlevels 1) SparseMatrix_default\<rparr>
      in for_each (setup_level lib) [0..<nlevels] s8)"

subsection \<open>Boundary values\<close>

text \<open>
  \<^verbatim>\<open>VectorTools::interpolate_boundary_values\<close>: the map from each DoF on the boundary
  with the given indicator to the value of the boundary function at its support
  point, as the list of its entries in key order. The program passes
  \<^verbatim>\<open>ZeroFunction<dim>()\<close>.
\<close>

definition ZeroFunction :: "point \<Rightarrow> real" where
  "ZeroFunction p = 0"

definition interpolate_boundary_values ::
  "'k library \<Rightarrow> MGDoFHandler \<Rightarrow> nat \<Rightarrow> (point \<Rightarrow> real) \<Rightarrow> (nat \<times> real) list" where
  "interpolate_boundary_values lib dof boundary_indicator f =
     map (\<lambda>(i, p). (i, f p)) (boundary_dofs lib dof boundary_indicator)"

text \<open>
  Modelled from the spec: \<^verbatim>\<open>MatrixTools::apply_boundary_values\<close> (library code outside
  the example). For each DoF of the boundary value map: zero its matrix row and
  column except the diagonal, which is set to 1; set its right-hand-side entry to
  the prescribed value; and adjust the other right-hand-side entries by the
  eliminated column times the value. The spec gives the solution vector no new
  value, so it is passed through.
\<close>

type_synonym linear_system = "real SparseMatrix \<times> Vector \<times> Vector"

definition eliminate_dof :: "nat \<times> real \<Rightarrow> linear_system \<Rightarrow> linear_system" where
  "eliminate_dof dv sys =
     (case dv of (d, v) \<Rightarrow> case sys of (A, x, b) \<Rightarrow>
        (A\<lparr>sm_val := (\<lambda>i j. if i = d \<and> j = d then 1
                            else if i = d \<or> j = d then 0
                            else sm_val A i j)\<rparr>,
         x,
         b\<lparr>vec_val := (\<lambda>i. if i = d then v else vec_val b i - sm_val A i d * v)\<rparr>))"

definition apply_boundary_values :: "(nat \<times> real) list \<Rightarrow> linear_system \<Rightarrow> linear_system" where
  "apply_boundary_values boundary_values sys = fold eliminate_dof boundary_values sys"

text \<open>
  The closing block shared by both assemblers: interpolate zero boundary values for
  indicator 0 and apply them to \<^verbatim>\<open>system_matrix\<close>, \<^verbatim>\<open>solution\<close>, \<^verbatim>\<open>system_rhs\<close>.
\<close>

definition apply_zero_boundary_values :: "'k library \<Rightarrow> LaplaceProblem \<Rightarrow> LaplaceProblem" where
  "apply_zero_boundary_values lib s =
     (let boundary_values = interpolate_boundary_values lib (mg_dof_handler s) 0 ZeroFunction
      in case apply_boundary_values boundary_values (system_matrix s, solution s, system_rhs s) of
           (A, x, b) \<Rightarrow> s\<lparr>system_matrix := A, solution := x, system_rhs := b\<rparr>)"

subsection \<open>assemble_system\<close>

text \<open>The statement \<^verbatim>\<open>cell_matrix(i,j) += grad_i * grad_j * JxW\<close> at one quadrature point.\<close>

definition add_stiffness ::
  "nat \<Rightarrow> FEValues \<Rightarrow> nat \<Rightarrow> nat \<Rightarrow> nat \<Rightarrow> (nat \<Rightarrow> nat \<Rightarrow> real) \<Rightarrow> (nat \<Rightarrow> nat \<Rightarrow> real)" where
  "add_stiffness sdim fe_values q_point i j cell_matrix =
     cell_matrix(i := (cell_matrix i)(j := cell_matrix i j +
        tensor_dot sdim (shape_grad fe_values i q_point) (shape_grad fe_values j q_point)
          * JxW fe_values q_point))"

text \<open>
  The integration loops of \<^verbatim>\<open>assemble_system\<close> on one cell, from the cleared local
  matrix and vector: over \<open>q_point\<close>, then \<open>i\<close>, where the body runs the loop over \<open>j\<close>
  on the matrix and then adds to \<^verbatim>\<open>cell_rhs(i)\<close> with the constant source \<open>1.0\<close>.
\<close>

definition integrate_system_cell ::
  "nat \<Rightarrow> nat \<Rightarrow> nat \<Rightarrow> FEValues \<Rightarrow> (nat \<Rightarrow> nat \<Rightarrow> real) \<times> (nat \<Rightarrow> real)" where
  "integrate_system_cell sdim dofs_per_cell n_q_points fe_values =
     fold (\<lambda>q_point.
        fold (\<lambda>i (cell_matrix, cell_rhs).
           (fold (add_stiffness sdim fe_values q_point i) [0..<dofs_per_cell] cell_matrix,
            cell_rhs(i := cell_rhs i + shape_value fe_values i q_point * 1 * JxW fe_values q_point)))
          [0..<dofs_per_cell])
       [0..<n_q_points]
       (\<lambda>i j. 0, \<lambda>i. 0)"

text \<open>The scatter loops: \<^verbatim>\<open>system_matrix.add\<close> for every \<open>(i, j)\<close>, then \<^verbatim>\<open>system_rhs(...) +=\<close>.\<close>

definition scatter_system_cell ::
  "nat \<Rightarrow> nat list \<Rightarrow> (nat \<Rightarrow> nat \<Rightarrow> real) \<Rightarrow> (nat \<Rightarrow> real) \<Rightarrow>
     real SparseMatrix \<times> Vector \<Rightarrow> real SparseMatrix \<times> Vector" where
  "scatter_system_cell dofs_per_cell local_dof_indices cell_matrix cell_rhs =
     fold (\<lambda>i (A, b).
        (fold (\<lambda>j A'. SparseMatrix_add A' (local_dof_indices ! i) (local_dof_indices ! j)
                        (cell_matrix i j))
           [0..<dofs_per_cell] A,
         Vector_add b (local_dof_indices ! i) (cell_rhs i)))
       [0..<dofs_per_cell]"

definition assemble_system_cell ::
  "nat \<Rightarrow> 'k library \<Rightarrow> cell_id \<Rightarrow> LaplaceProblem \<Rightarrow> LaplaceProblem" where
  "assemble_system_cell sdim lib cell s =
     (let dofs_per_cell = fe_dofs_per_cell lib;
          n_q_points = n_quadrature_points lib;
          fe_values = fe_values_reinit lib (triangulation s) cell;
          local_dof_indices = map (dof_index (mg_dof_handler s) cell) [0..<dofs_per_cell]
      in case integrate_system_cell sdim dofs_per_cell n_q_points fe_values of
           (cell_matrix, cell_rhs) \<Rightarrow>
             (case scatter_system_cell dofs_per_cell local_dof_indices cell_matrix cell_rhs
                     (system_matrix s, system_rhs s) of
                (A, b) \<Rightarrow> s\<lparr>system_matrix := A, system_rhs := b\<rparr>))"

text \<open>The loop over the active cells, which is \<^verbatim>\<open>assemble_system\<close> up to the boundary values.\<close>

definition assemble_system_cells :: "nat \<Rightarrow> 'k library \<Rightarrow> LaplaceProblem \<Rightarrow> LaplaceProblem" where
  "assemble_system_cells sdim lib s =
     fold (assemble_system_cell sdim lib) (active_cells (triangulation s)) s"

definition assemble_system :: "nat \<Rightarrow> 'k library \<Rightarrow> LaplaceProblem \<Rightarrow> LaplaceProblem" where
  "assemble_system sdim lib s = apply_zero_boundary_values lib (assemble_system_cells sdim lib s)"

subsection \<open>assemble_multigrid\<close>

definition integrate_multigrid_cell ::
  "nat \<Rightarrow> nat \<Rightarrow> nat \<Rightarrow> FEValues \<Rightarrow> (nat \<Rightarrow> nat \<Rightarrow> real)" where
  "integrate_multigrid_cell sdim dofs_per_cell n_q_points fe_values =
     fold (\<lambda>q_point.
        fold (\<lambda>i. fold (add_stiffness sdim fe_values q_point i) [0..<dofs_per_cell])
          [0..<dofs_per_cell])
       [0..<n_q_points]
       (\<lambda>i j. 0)"

definition assemble_multigrid_cell ::
  "nat \<Rightarrow> 'k library \<Rightarrow> cell_id \<Rightarrow> LaplaceProblem \<Rightarrow> error + LaplaceProblem" where
  "assemble_multigrid_cell sdim lib cell s =
     (let dofs_per_cell = fe_dofs_per_cell lib;
          n_q_points = n_quadrature_points lib;
          level = fst cell;
          fe_values = fe_values_reinit lib (triangulation s) cell;
          cell_matrix = integrate_multigrid_cell sdim dofs_per_cell n_q_points fe_values;
          local_dof_indices = map (mg_dof_index (mg_dof_handler s) cell) [0..<dofs_per_cell]
      in bind_error
           (for_each (\<lambda>i.
               for_each (\<lambda>j matrices.
                  MGLevelObject_modify matrices level
                    (\<lambda>M. SparseMatrix_add M (local_dof_indices ! i) (local_dof_indices ! j)
                            (float_round (cell_matrix i j))))
                 [0..<dofs_per_cell])
              [0..<dofs_per_cell] (mg_matrices s))
           (\<lambda>matrices. Inr (s\<lparr>mg_matrices := matrices\<rparr>)))"

definition assemble_multigrid_cells ::
  "nat \<Rightarrow> 'k library \<Rightarrow> LaplaceProblem \<Rightarrow> error + LaplaceProblem" where
  "assemble_multigrid_cells sdim lib s =
     for_each (assemble_multigrid_cell sdim lib) (all_cells (triangulation s)) s"

definition assemble_multigrid :: "nat \<Rightarrow> 'k library \<Rightarrow> LaplaceProblem \<Rightarrow> error + LaplaceProblem" where
  "assemble_multigrid sdim lib s =
     bind_error (assemble_multigrid_cells sdim lib s)
       (\<lambda>s1. Inr (apply_zero_boundary_values lib s1))"

subsection \<open>solve\<close>

record SolverControl =
  max_steps :: nat
  tolerance :: real

record PreconditionSSOR =
  ssor_matrix :: "real SparseMatrix"
  ssor_relaxation :: real

definition PreconditionSSOR_initialize :: "real SparseMatrix \<Rightarrow> real \<Rightarrow> PreconditionSSOR" where
  "PreconditionSSOR_initialize A omega = \<lparr>ssor_matrix = A, ssor_relaxation = omega\<rparr>"

definition PreconditionSSOR_vmult :: "'k library \<Rightarrow> PreconditionSSOR \<Rightarrow> Vector \<Rightarrow> Vector" where
  "PreconditionSSOR_vmult lib P = precondition_SSOR lib (ssor_matrix P) (ssor_relaxation P)"

text \<open>
  Modelled from the spec: the control loop of \<^verbatim>\<open>SolverCG<>::solve\<close> (library code outside
  the example). The iteration stops with the current iterate and the number of steps
  used when the residual norm falls below the tolerance; when the maximum number of
  steps has been used without reaching it, the failure is raised. \<open>step\<close> counts the
  steps taken, \<open>remaining\<close> those still allowed.
\<close>

fun cg_loop ::
  "'k library \<Rightarrow> SolverControl \<Rightarrow> real SparseMatrix \<Rightarrow> (Vector \<Rightarrow> Vector) \<Rightarrow> nat \<Rightarrow> nat \<Rightarrow> 'k
     \<Rightarrow> error + (Vector \<times> nat)" where
  "cg_loop lib control A P step 0 k =
     (if cg_residual lib k < tolerance control then Inr (cg_iterate lib k, step)
      else Inl (NoConvergence step (cg_residual lib k)))"
| "cg_loop lib control A P step (Suc remaining) k =
     (if cg_residual lib k < tolerance control then Inr (cg_iterate lib k, step)
      else cg_loop lib control A P (Suc step) remaining (cg_step lib A P k))"

definition SolverCG_solve ::
  "'k library \<Rightarrow> SolverControl \<Rightarrow> real SparseMatrix \<Rightarrow> Vector \<Rightarrow> Vector \<Rightarrow> PreconditionSSOR
     \<Rightarrow> error + (Vector \<times> nat)" where
  "SolverCG_solve lib control A x b preconditioner =
     cg_loop lib control A (PreconditionSSOR_vmult lib preconditioner) 0 (max_steps control)
       (cg_start lib A (PreconditionSSOR_vmult lib preconditioner) x b)"

definition solve :: "'k library \<Rightarrow> LaplaceProblem \<Rightarrow> error + LaplaceProblem" where
  "solve lib s =
     (let solver_control = \<lparr>max_steps = 1000, tolerance = 1 / 10 ^ 12\<rparr>;
          preconditioner = PreconditionSSOR_initialize (system_matrix s) (12 / 10)
      in bind_error
           (SolverCG_solve lib solver_control (system_matrix s) (solution s) (system_rhs s)
              preconditioner)
           (\<lambda>(x, last_step).
              Inr (s\<lparr>solution := x, cout := cout s @ [CGIterations last_step]\<rparr>)))"

subsection \<open>output_results\<close>

function decimal :: "nat \<Rightarrow> string" where
  "decimal n =
     (if n < 10 then [char_of (48 + n)] else decimal (n div 10) @ [char_of (48 + n mod 10)])"
  by pat_completeness auto
termination
  by (relation "measure id") auto

declare decimal.simps [simp del]

definition output_results :: "'k library \<Rightarrow> nat \<Rightarrow> LaplaceProblem \<Rightarrow> LaplaceProblem" where
  "output_results lib cycle s =
     (let filename = ''solution-'' @ decimal cycle @ ''.gnuplot''
      in s\<lparr>files := (files s)(filename \<mapsto> write_gnuplot lib (mg_dof_handler s) (solution s))\<rparr>)"

subsection \<open>run and main\<close>

text \<open>The body of the loop over \<open>cycle\<close>.\<close>

definition run_cycle :: "nat \<Rightarrow> 'k library \<Rightarrow> nat \<Rightarrow> LaplaceProblem \<Rightarrow> error + LaplaceProblem" where
  "run_cycle sdim lib cycle s0 =
     (let s1 = s0\<lparr>cout := cout s0 @ [Cycle cycle]\<rparr>;
          s2 = (if cycle = 0 then s1\<lparr>triangulation := hyper_cube sdim\<rparr>
                else s1\<lparr>triangulation := refine_global sdim 1 (triangulation s1)\<rparr>);
          s3 = s2\<lparr>cout := cout s2 @
                     [NumberOfActiveCells (n_active_cells (triangulation s2)),
                      TotalNumberOfCells (n_cells (triangulation s2))]\<rparr>
      in bind_error (setup_system lib s3)
           (\<lambda>s4. bind_error (solve lib (assemble_system sdim lib s4))
              (\<lambda>s5. Inr (output_results lib cycle s5))))"

definition run :: "nat \<Rightarrow> 'k library \<Rightarrow> LaplaceProblem \<Rightarrow> error + LaplaceProblem" where
  "run sdim lib s = for_each (run_cycle sdim lib) [0..<6] s"

text \<open>
  \<^verbatim>\<open>main\<close> builds a \<^verbatim>\<open>LaplaceProblem<2>\<close>, runs it and returns 0; an exception that leaves
  \<^verbatim>\<open>run\<close> is not caught. (The call \<^verbatim>\<open>deallog.depth_console (0)\<close> only silences the
  library's log and has no counterpart here.)
\<close>

definition main :: "'k library \<Rightarrow> error + (int \<times> LaplaceProblem)" where
  "main lib = bind_error (run 2 lib LaplaceProblem_init) (\<lambda>laplace_problem_2d. Inr (0, laplace_problem_2d))"

section \<open>Notions used in the proofs\<close>

text \<open>Row and column \<open>d\<close> of the matrix are those of the identity.\<close>

definition unit_at :: "real SparseMatrix \<Rightarrow> nat \<Rightarrow> bool" where
  "unit_at A d = (\<forall>i j. (i = d \<or> j = d) \<longrightarrow> sm_val A i j = (if i = j then 1 else 0))"


text \<open>
  The quantities of the assembler's contract, in the spec's words: the quadrature sum
  of \<open>grad \<phi>\<^sub>i \<cdot> grad \<phi>\<^sub>j \<cdot> w\<close> and the quadrature sum of \<open>\<phi>\<^sub>i \<cdot> f \<cdot> w\<close> with \<open>f = 1\<close>.
\<close>

definition quadrature_stiffness :: "nat \<Rightarrow> nat \<Rightarrow> FEValues \<Rightarrow> nat \<Rightarrow> nat \<Rightarrow> real" where
  "quadrature_stiffness sdim n_q_points fe_values i j =
     (\<Sum>q\<leftarrow>[0..<n_q_points].
        tensor_dot sdim (shape_grad fe_values i q) (shape_grad fe_values j q) * JxW fe_values q)"

definition quadrature_load :: "nat \<Rightarrow> FEValues \<Rightarrow> nat \<Rightarrow> real" where
  "quadrature_load n_q_points fe_values i =
     (\<Sum>q\<leftarrow>[0..<n_q_points]. shape_value fe_values i q * 1 * JxW fe_values q)"

text \<open>
  The pattern that \<^verbatim>\<open>setup_system\<close> builds for a level, and the pattern it builds for
  the global matrix.
\<close>

definition level_sparsity :: "'k library \<Rightarrow> MGDoFHandler \<Rightarrow> nat \<Rightarrow> SparsityPattern" where
  "level_sparsity lib dof level =
     SparsityPattern_compress
       (fold SparsityPattern_add (mg_make_sparsity_pattern lib dof level)
          (SparsityPattern_reinit (n_dofs_on_level dof level) (n_dofs_on_level dof level)
             (max_couplings_between_dofs dof)))"

definition global_sparsity :: "'k library \<Rightarrow> MGDoFHandler \<Rightarrow> SparsityPattern" where
  "global_sparsity lib dof =
     SparsityPattern_compress
       (fold SparsityPattern_add (make_sparsity_pattern lib dof)
          (SparsityPattern_reinit (n_dofs dof) (n_dofs dof) (max_couplings_between_dofs dof)))"

text \<open>The number of slots after \<^verbatim>\<open>resize (0, nlevels-1)\<close>.\<close>

definition level_slots :: "nat \<Rightarrow> nat" where
  "level_slots nlevels = Suc (unsigned_minus nlevels 1)"

text \<open>The members that the global assembler reads and writes.\<close>

definition assembly_view ::
  "LaplaceProblem \<Rightarrow> Triangulation \<times> MGDoFHandler \<times> real SparseMatrix \<times> Vector \<times> Vector" where
  "assembly_view s =
     (triangulation s, mg_dof_handler s, system_matrix s, solution s, system_rhs s)"

text \<open>The mesh that the loop body of \<^verbatim>\<open>run\<close> works on in cycle \<open>cycle\<close>.\<close>

definition cycle_mesh :: "nat \<Rightarrow> nat \<Rightarrow> Triangulation \<Rightarrow> Triangulation" where
  "cycle_mesh sdim cycle t =
     (if cycle = 0 then hyper_cube sdim else refine_global sdim 1 t)"

text \<open>The cycle numbers and the active-cell counts that the console shows, in order.\<close>

definition cycles_reported :: "console_line list \<Rightarrow> nat list" where
  "cycles_reported out = concat (map (\<lambda>l. case l of Cycle c \<Rightarrow> [c] | _ \<Rightarrow> []) out)"

definition active_cell_reports :: "console_line list \<Rightarrow> nat list" where
  "active_cell_reports out =
     concat (map (\<lambda>l. case l of NumberOfActiveCells n \<Rightarrow> [n] | _ \<Rightarrow> []) out)"

text \<open>The states of the conjugate gradient kernel: the start state and \<open>j\<close> steps from it.\<close>

definition cg_states ::
  "'k library \<Rightarrow> real SparseMatrix \<Rightarrow> (Vector \<Rightarrow> Vector) \<Rightarrow> Vector \<Rightarrow> Vector \<Rightarrow> nat \<Rightarrow> 'k" where
  "cg_states lib A P x b j = (cg_step lib A P ^^ j) (cg_start lib A P x b)"

section \<open>An instance of the collaborators\<close>

text \<open>
  A small instance used to evaluate the program on concrete input: the interval
  \<open>[0, 1]\<close> (\<open>dim = 1\<close>) under uniform refinement, linear elements with the DoFs
  numbered from left to right, a two-point quadrature rule, both end points on the
  boundary with indicator 0, and a preconditioned conjugate gradient kernel that
  measures the residual in the 1-norm.
\<close>

definition interval_dofs :: "Triangulation \<Rightarrow> MGDoFHandler" where
  "interval_dofs t =
     \<lparr>n_dofs = Suc (n_active_cells t),
      n_dofs_on_level = (\<lambda>l. if l < n_levels t then Suc (length (levels t ! l)) else 0),
      max_couplings_between_dofs = 3,
      dof_index = (\<lambda>c i. snd c + i),
      mg_dof_index = (\<lambda>c i. snd c + i)\<rparr>"

text \<open>
  On the cell of width \<open>h = 1/2^l\<close>: the gradients of the two hat functions are \<open>-1/h\<close>
  and \<open>1/h\<close>, their values at the quadrature points (the quarter points of the
  cell) are \<open>3/4\<close> and \<open>1/4\<close>, and each point has weight \<open>h/2\<close>.
\<close>

definition interval_fe_values :: "Triangulation \<Rightarrow> cell_id \<Rightarrow> FEValues" where
  "interval_fe_values t c =
     \<lparr>shape_grad = (\<lambda>i q d. if i = 0 then - (2 ^ fst c) else 2 ^ fst c),
      shape_value = (\<lambda>i q. if i = q then 3 / 4 else 1 / 4),
      JxW = (\<lambda>q. 1 / (2 * 2 ^ fst c))\<rparr>"

definition tridiagonal_pattern :: "nat \<Rightarrow> (nat \<times> nat) list" where
  "tridiagonal_pattern n =
     concat (map (\<lambda>i. map (\<lambda>j. (i, j)) (filter (\<lambda>j. i \<le> Suc j \<and> j \<le> Suc i) [0..<n])) [0..<n])"

definition interval_boundary :: "MGDoFHandler \<Rightarrow> nat \<Rightarrow> (nat \<times> point) list" where
  "interval_boundary dof boundary_indicator =
     (if boundary_indicator = 0 \<and> 1 < n_dofs dof
      then [(0, \<lambda>d. 0), (n_dofs dof - 1, \<lambda>d. 1)] else [])"

text \<open>One SSOR step: forward sweep, diagonal scaling, backward sweep.\<close>

definition ssor_step :: "real SparseMatrix \<Rightarrow> real \<Rightarrow> Vector \<Rightarrow> Vector" where
  "ssor_step A omega src =
     (let n = vec_size src;
          forward = fold (\<lambda>i y. y(i := (vec_val src i - (\<Sum>j\<leftarrow>[0..<i]. sm_val A i j * y j))
                                        * omega / sm_val A i i)) [0..<n] (\<lambda>i. 0);
          scaled = (\<lambda>i. (2 - omega) / omega * sm_val A i i * forward i);
          backward = fold (\<lambda>i z. z(i := (scaled i - (\<Sum>j\<leftarrow>[Suc i..<n]. sm_val A i j * z j))
                                         * omega / sm_val A i i)) (rev [0..<n]) (\<lambda>i. 0)
      in \<lparr>vec_size = n, vec_val = backward\<rparr>)"

definition vec_dot :: "Vector \<Rightarrow> Vector \<Rightarrow> real" where
  "vec_dot x y = (\<Sum>i\<leftarrow>[0..<vec_size x]. vec_val x i * vec_val y i)"

definition vec_axpy :: "real \<Rightarrow> Vector \<Rightarrow> Vector \<Rightarrow> Vector" where
  "vec_axpy a x y = \<lparr>vec_size = vec_size y, vec_val = (\<lambda>i. vec_val y i + a * vec_val x i)\<rparr>"

definition vmult :: "real SparseMatrix \<Rightarrow> Vector \<Rightarrow> Vector" where
  "vmult A x =
     \<lparr>vec_size = vec_size x,
      vec_val = (\<lambda>i. \<Sum>j\<leftarrow>[0..<vec_size x]. sm_val A i j * vec_val x j)\<rparr>"

text \<open>The state of the kernel: iterate, residual, preconditioned residual, direction.\<close>

record pcg_state =
  pcg_x :: Vector
  pcg_r :: Vector
  pcg_z :: Vector
  pcg_p :: Vector

definition pcg_start :: "real SparseMatrix \<Rightarrow> (Vector \<Rightarrow> Vector) \<Rightarrow> Vector \<Rightarrow> Vector \<Rightarrow> pcg_state" where
  "pcg_start A P x b =
     (let r = vec_axpy (- 1) (vmult A x) b
      in \<lparr>pcg_x = x, pcg_r = r, pcg_z = P r, pcg_p = P r\<rparr>)"

definition pcg_step :: "real SparseMatrix \<Rightarrow> (Vector \<Rightarrow> Vector) \<Rightarrow> pcg_state \<Rightarrow> pcg_state" where
  "pcg_step A P k =
     (let Ap = vmult A (pcg_p k);
          alpha = vec_dot (pcg_r k) (pcg_z k) / vec_dot (pcg_p k) Ap;
          x = vec_axpy alpha (pcg_p k) (pcg_x k);
          r = vec_axpy (- alpha) Ap (pcg_r k);
          z = P r;
          beta = vec_dot r z / vec_dot (pcg_r k) (pcg_z k)
      in \<lparr>pcg_x = x, pcg_r = r, pcg_z = z, pcg_p = vec_axpy beta (pcg_p k) z\<rparr>)"

definition interval_library :: "pcg_state library" where
  "interval_library =
     \<lparr>fe_dofs_per_cell = 2,
      n_quadrature_points = 2,
      distribute_dofs = interval_dofs,
      fe_values_reinit = interval_fe_values,
      make_sparsity_pattern = (\<lambda>dof. tridiagonal_pattern (n_dofs dof)),
      mg_make_sparsity_pattern = (\<lambda>dof level. tridiagonal_pattern (n_dofs_on_level dof level)),
      boundary_dofs = interval_boundary,
      precondition_SSOR = ssor_step,
      cg_start = pcg_start,
      cg_step = pcg_step,
      cg_residual = (\<lambda>k. \<Sum>i\<leftarrow>[0..<vec_size (pcg_r k)]. \<bar>vec_val (pcg_r k) i\<bar>),
      cg_iterate = pcg_x,
      write_gnuplot = (\<lambda>dof v. ''# gnuplot'')\<rparr>"

text \<open>The same collaborators with a kernel whose residual norm is a given constant.\<close>

definition constant_residual_library :: "real \<Rightarrow> pcg_state library" where
  "constant_residual_library \<rho> = interval_library\<lparr>cg_residual := (\<lambda>k. \<rho>)\<rparr>"

text \<open>
  The problem on the interval refined once (the mesh of cycle 1), before
  \<^verbatim>\<open>setup_system\<close> and after it.
\<close>

definition refined_problem :: LaplaceProblem where
  "refined_problem =
     LaplaceProblem_init\<lparr>triangulation := \<lparr>levels = [[Refined], [Active, Active]]\<rparr>\<rparr>"

definition refined_setup :: LaplaceProblem where
  "refined_setup =
     \<lparr>triangulation = \<lparr>levels = [[Refined], [Active, Active]]\<rparr>,
      mg_dof_handler = interval_dofs \<lparr>levels = [[Refined], [Active, Active]]\<rparr>,
      sparsity_pattern =
        global_sparsity interval_library (interval_dofs \<lparr>levels = [[Refined], [Active, Active]]\<rparr>),
      system_matrix = \<lparr>sm_rows = 3, sm_cols = 3, sm_val = (\<lambda>i j. 0)\<rparr>,
      mg_sparsity = \<lparr>minlevel = 0, objects =
        [level_sparsity interval_library (interval_dofs \<lparr>levels = [[Refined], [Active, Active]]\<rparr>) 0,
         level_sparsity interval_library (interval_dofs \<lparr>levels = [[Refined], [Active, Active]]\<rparr>) 1]\<rparr>,
      mg_matrices = \<lparr>minlevel = 0, objects =
        [\<lparr>sm_rows = 2, sm_cols = 2, sm_val = (\<lambda>i j. 0)\<rparr>,
         \<lparr>sm_rows = 3, sm_cols = 3, sm_val = (\<lambda>i j. 0)\<rparr>]\<rparr>,
      solution = \<lparr>vec_size = 3, vec_val = (\<lambda>i. 0)\<rparr>,
      system_rhs = \<lparr>vec_size = 3, vec_val = (\<lambda>i. 0)\<rparr>,
      cout = [NumberOfDegreesOfFreedom 3],
      files = Map.empty\<rparr>"

text \<open>The linear system of the interval refined once, as \<^verbatim>\<open>assemble_system\<close> leaves it.\<close>

definition refined_system :: LaplaceProblem where
  "refined_system = assemble_system 1 interval_library refined_setup"

section \<open>A second instance: the unit square\<close>

text \<open>
  The collaborators on the unit square as a single cell (\<open>dim = 2\<close>, the mesh of
  cycle 0): bilinear elements with the four DoFs at the vertices, numbered as the
  vertices \<open>(0,0)\<close>, \<open>(1,0)\<close>, \<open>(0,1)\<close>, \<open>(1,1)\<close>; the \<open>2 \<times> 2\<close> Gauss rule
  with the points \<open>(1 - 1/sqrt 3)/2\<close> and \<open>(1 + 1/sqrt 3)/2\<close> in each direction and
  weight \<open>1/4\<close> per point; every vertex on the boundary with indicator 0. The solver
  kernel is the one of the interval.
\<close>

definition gauss_point :: "nat \<Rightarrow> real" where
  "gauss_point k = (if k = 0 then (1 - 1 / sqrt 3) / 2 else (1 + 1 / sqrt 3) / 2)"

definition linear_shape :: "nat \<Rightarrow> real \<Rightarrow> real" where
  "linear_shape k x = (if k = 0 then 1 - x else x)"

definition linear_shape_grad :: "nat \<Rightarrow> real" where
  "linear_shape_grad k = (if k = 0 then - 1 else 1)"

definition square_fe_values :: "Triangulation \<Rightarrow> cell_id \<Rightarrow> FEValues" where
  "square_fe_values t c =
     \<lparr>shape_grad = (\<lambda>i q d.
        if d = 0
        then linear_shape_grad (i mod 2) * linear_shape (i div 2) (gauss_point (q div 2))
        else linear_shape (i mod 2) (gauss_point (q mod 2)) * linear_shape_grad (i div 2)),
      shape_value = (\<lambda>i q.
        linear_shape (i mod 2) (gauss_point (q mod 2))
          * linear_shape (i div 2) (gauss_point (q div 2))),
      JxW = (\<lambda>q. 1 / 4)\<rparr>"

definition square_dofs :: "Triangulation \<Rightarrow> MGDoFHandler" where
  "square_dofs t =
     \<lparr>n_dofs = 4,
      n_dofs_on_level = (\<lambda>l. if l = 0 then 4 else 0),
      max_couplings_between_dofs = 4,
      dof_index = (\<lambda>c i. i),
      mg_dof_index = (\<lambda>c i. i)\<rparr>"

definition dense_pattern :: "nat \<Rightarrow> (nat \<times> nat) list" where
  "dense_pattern n = concat (map (\<lambda>i. map (\<lambda>j. (i, j)) [0..<n]) [0..<n])"

definition square_boundary :: "MGDoFHandler \<Rightarrow> nat \<Rightarrow> (nat \<times> point) list" where
  "square_boundary dof boundary_indicator =
     (if boundary_indicator = 0
      then map (\<lambda>k. (k, \<lambda>d. if d = 0 then of_nat (k mod 2) else of_nat (k div 2))) [0..<4]
      else [])"

definition square_library :: "pcg_state library" where
  "square_library =
     interval_library
       \<lparr>fe_dofs_per_cell := 4,
        n_quadrature_points := 4,
        distribute_dofs := square_dofs,
        fe_values_reinit := square_fe_values,
        make_sparsity_pattern := (\<lambda>dof. dense_pattern (n_dofs dof)),
        mg_make_sparsity_pattern := (\<lambda>dof level. dense_pattern (n_dofs_on_level dof level)),
        boundary_dofs := square_boundary\<rparr>"


section \<open>Single-precision rounding\<close>

lemma exponent_search_bounds:
  "e0 \<le> 104 \<Longrightarrow> e0 \<le> exponent_search e0 x \<and> exponent_search e0 x \<le> 104"
proof (induction e0 x rule: exponent_search.induct)
  case (1 e x)
  show ?case
  proof (cases "104 \<le> e \<or> \<bar>x\<bar> < 2 powi (e + 24)")
    case True
    then show ?thesis using "1.prems" by (simp add: exponent_search.simps [of e x])
  next
    case False
    then have "e + 1 \<le> 104" by simp
    with "1.IH" False have "e + 1 \<le> exponent_search (e + 1) x \<and> exponent_search (e + 1) x \<le> 104"
      by blast
    then show ?thesis using False by (simp add: exponent_search.simps [of e x])
  qed
qed





lemma round_half_even_int [simp]: "round_half_even (of_int m) = m"
  by (simp add: round_half_even_def)







lemma exponent_search_least:
  assumes "e0 \<le> e" and "\<bar>x\<bar> < 2 powi (e + 24)"
  shows "exponent_search e0 x \<le> e"
  using assms
proof (induction e0 x rule: exponent_search.induct)
  case (1 e0 x)
  show ?case
  proof (cases "104 \<le> e0 \<or> \<bar>x\<bar> < 2 powi (e0 + 24)")
    case True
    then show ?thesis using "1.prems" by (simp add: exponent_search.simps [of e0 x])
  next
    case False
    with "1.prems" have "e0 \<noteq> e" by auto
    with "1.prems" have "e0 + 1 \<le> e" by simp
    with "1.IH" [OF False] "1.prems" have "exponent_search (e0 + 1) x \<le> e" by simp
    then show ?thesis using False by (simp add: exponent_search.simps [of e0 x])
  qed
qed

lemma float_round_exact:
  assumes "- 149 \<le> e" and "e \<le> 104" and "\<bar>m\<bar> < 2 ^ 24"
  shows "float_round (of_int m * 2 powi e) = Finite (of_int m * 2 powi e)"
proof -
  define x :: real where "x = of_int m * 2 powi e"
  define e' where "e' = exponent_search (- 149) x"
  define k where "k = nat (e - e')"
  have m: "\<bar>of_int m :: real\<bar> < 2 ^ 24"
    using assms(3) by (metis of_int_abs of_int_less_iff of_int_numeral of_int_power)
  have "\<bar>x\<bar> = \<bar>of_int m\<bar> * 2 powi e"
    by (simp add: x_def abs_mult)
  also have "\<dots> < 2 ^ 24 * 2 powi e"
    using m by (intro mult_strict_right_mono) simp_all
  also have "\<dots> = 2 powi (e + 24)"
    by (simp add: power_int_add)
  finally have "\<bar>x\<bar> < 2 powi (e + 24)" .
  with assms(1) have le: "e' \<le> e"
    unfolding e'_def by (intro exponent_search_least)
  have ge: "- 149 \<le> e'"
    using exponent_search_bounds [of "- 149" x] by (simp add: e'_def)
  have e: "e = e' + int k"
    using le by (simp add: k_def)
  have pw: "(2::real) powi e = 2 powi e' * 2 ^ k"
    unfolding e by (simp add: power_int_add)
  have q: "x / 2 powi e' = of_int (m * 2 ^ k)"
    by (simp add: x_def pw)
  have r: "round_half_even (x / 2 powi e') = m * 2 ^ k"
    unfolding q by (rule round_half_even_int)
  have no: "\<not> (2 ^ 24 \<le> \<bar>m * 2 ^ k\<bar> \<and> e' = 104)"
  proof
    assume a: "2 ^ 24 \<le> \<bar>m * 2 ^ k\<bar> \<and> e' = 104"
    with le assms(2) have "k = 0" by (simp add: k_def)
    with a assms(3) show False by simp
  qed
  have "float_round x = Finite (of_int (m * 2 ^ k) * 2 powi e')"
    using no unfolding float_round_def Let_def e'_def [symmetric] r by simp
  also have "of_int (m * 2 ^ k) * 2 powi e' = x"
    by (simp add: x_def pw)
  finally show ?thesis by (simp add: x_def)
qed


lemma float_round_int:
  assumes "\<bar>m\<bar> < 2 ^ 24"
  shows "float_round (of_int m) = Finite (of_int m)"
  using float_round_exact [of 0 m] assms by simp

lemma float_round_numeral:
  assumes "(numeral n :: int) < 2 ^ 24"
  shows "float_round (numeral n) = Finite (numeral n)"
  using float_round_int [of "numeral n"] assms by simp

lemma float_round_neg_numeral:
  assumes "(numeral n :: int) < 2 ^ 24"
  shows "float_round (- numeral n) = Finite (- numeral n)"
  using float_round_int [of "- numeral n"] assms by simp

lemma float_round_0: "float_round 0 = Finite 0"
  using float_round_int [of 0] by simp

lemma float_round_1: "float_round 1 = Finite 1"
  using float_round_int [of 1] by simp



section \<open>The boundary applier\<close>

lemma eliminate_dof_unit:
  assumes "unit_at A d"
  shows "eliminate_dof (d, v) (A, x, b) = (A, x, b\<lparr>vec_val := (vec_val b)(d := v)\<rparr>)"
proof -
  have "(\<lambda>i j. if i = d \<and> j = d then 1 else if i = d \<or> j = d then 0 else sm_val A i j) = sm_val A"
    using assms by (intro ext) (auto simp: unit_at_def)
  moreover have "(\<lambda>i. if i = d then v else vec_val b i - sm_val A i d * v) = (vec_val b)(d := v)"
    using assms by (intro ext) (auto simp: unit_at_def)
  ultimately show ?thesis by (simp add: eliminate_dof_def)
qed

lemma eliminate_dof_establishes:
  assumes "eliminate_dof (d, v) (A, x, b) = (A', x', b')"
  shows "unit_at A' d" and "vec_val b' d = v" and "x' = x"
    and "unit_at A e \<Longrightarrow> unit_at A' e"
    and "unit_at A e \<Longrightarrow> e \<noteq> d \<Longrightarrow> vec_val b' e = vec_val b e"
  using assms by (auto simp: eliminate_dof_def unit_at_def)

lemma fold_eliminate_unit:
  assumes "\<forall>d \<in> fst ` set bv. unit_at A d"
  shows "fold eliminate_dof bv (A, x, b) =
           (A, x, b\<lparr>vec_val := (\<lambda>i. case map_of (rev bv) i of Some v \<Rightarrow> v | None \<Rightarrow> vec_val b i)\<rparr>)"
  using assms
proof (induction bv rule: rev_induct)
  case Nil
  show ?case by simp
next
  case (snoc dv bv)
  obtain d v where dv: "dv = (d, v)" by (cases dv)
  have u: "unit_at A d" using snoc.prems dv by simp
  have ih: "fold eliminate_dof bv (A, x, b) =
           (A, x, b\<lparr>vec_val := (\<lambda>i. case map_of (rev bv) i of Some v \<Rightarrow> v | None \<Rightarrow> vec_val b i)\<rparr>)"
    using snoc by simp
  show ?case
  proof -
    have "(\<lambda>i. case map_of (rev bv) i of Some v \<Rightarrow> v | None \<Rightarrow> vec_val b i)(d := v) =
          (\<lambda>i. case map_of (rev (bv @ [dv])) i of Some v \<Rightarrow> v | None \<Rightarrow> vec_val b i)"
      by (intro ext) (simp add: dv)
    then show ?thesis
      by (simp add: ih dv eliminate_dof_unit [OF u])
  qed
qed

lemma fold_eliminate_result:
  assumes "fold eliminate_dof bv (A, x, b) = (A', x', b')"
  shows "(\<forall>d \<in> fst ` set bv. unit_at A' d \<and> map_of (rev bv) d = Some (vec_val b' d)) \<and> x' = x"
  using assms
proof (induction bv arbitrary: A' x' b' rule: rev_induct)
  case Nil
  then show ?case by simp
next
  case (snoc dv bv)
  obtain d v where dv: "dv = (d, v)" by (cases dv)
  obtain A1 x1 b1 where mid: "fold eliminate_dof bv (A, x, b) = (A1, x1, b1)"
    by (cases "fold eliminate_dof bv (A, x, b)") auto
  have ih: "\<forall>e \<in> fst ` set bv. unit_at A1 e \<and> map_of (rev bv) e = Some (vec_val b1 e)" and x1: "x1 = x"
    using snoc.IH [OF mid] by auto
  have step: "eliminate_dof (d, v) (A1, x1, b1) = (A', x', b')"
    using snoc.prems mid dv by simp
  note est = eliminate_dof_establishes [OF step]
  have "unit_at A' e \<and> map_of (rev (bv @ [dv])) e = Some (vec_val b' e)"
    if "e \<in> fst ` set (bv @ [dv])" for e
  proof (cases "e = d")
    case True
    then show ?thesis using est(1,2) dv by simp
  next
    case False
    with that dv have "e \<in> fst ` set bv" by auto
    with ih have "unit_at A1 e" "map_of (rev bv) e = Some (vec_val b1 e)" by auto
    with est(4,5) False dv show ?thesis by simp
  qed
  with est(3) x1 show ?case by blast
qed

text \<open>
  Claim C4. Boundary elimination is idempotent: for every linear system (matrix,
  solution, right-hand side) and every boundary value map, applying the boundary
  applier twice with the same map gives the same system as applying it once.
\<close>

theorem apply_boundary_values_idempotent:
  "apply_boundary_values bv (apply_boundary_values bv sys) = apply_boundary_values bv sys"
proof -
  obtain A x b where sys: "sys = (A, x, b)" by (cases sys) auto
  obtain A' x' b' where once: "fold eliminate_dof bv (A, x, b) = (A', x', b')"
    by (cases "fold eliminate_dof bv (A, x, b)") auto
  from fold_eliminate_result [OF once]
  have inv: "\<forall>d \<in> fst ` set bv. unit_at A' d \<and> map_of (rev bv) d = Some (vec_val b' d)" by simp
  then have u: "\<forall>d \<in> fst ` set bv. unit_at A' d" by simp
  have "(\<lambda>i. case map_of (rev bv) i of Some v \<Rightarrow> v | None \<Rightarrow> vec_val b' i) = vec_val b'"
  proof
    fix i
    show "(case map_of (rev bv) i of Some v \<Rightarrow> v | None \<Rightarrow> vec_val b' i) = vec_val b' i"
    proof (cases "i \<in> fst ` set bv")
      case True
      with inv have "map_of (rev bv) i = Some (vec_val b' i)" by blast
      then show ?thesis by simp
    next
      case False
      then have "map_of (rev bv) i = None" by (simp add: map_of_eq_None_iff)
      then show ?thesis by simp
    qed
  qed
  then have "fold eliminate_dof bv (A', x', b') = (A', x', b')"
    by (simp add: fold_eliminate_unit [OF u])
  then show ?thesis by (simp add: apply_boundary_values_def sys once)
qed

section \<open>Loops that add\<close>

lemma fold_plus:
  fixes v :: "'s \<Rightarrow> real"
  assumes "\<And>x s. v (step x s) = v s + h x"
  shows "v (fold step xs s) = v s + (\<Sum>x\<leftarrow>xs. h x)"
  by (induction xs arbitrary: s) (simp_all add: assms)

lemma fold_plus_invariant:
  fixes v :: "'s \<Rightarrow> real"
  assumes "P s"
    and "\<And>x s. P s \<Longrightarrow> P (step x s)"
    and "\<And>x s. P s \<Longrightarrow> v (step x s) = v s + h x"
  shows "v (fold step xs s) = v s + (\<Sum>x\<leftarrow>xs. h x) \<and> P (fold step xs s)"
  using assms(1) by (induction xs arbitrary: s) (simp_all add: assms(2,3))

lemma fold_pair:
  "fold (\<lambda>x (a, b). (F x a, G x b)) xs (a, b) = (fold F xs a, fold G xs b)"
  by (induction xs arbitrary: a b) simp_all

lemma fold_pair_fun:
  "fold (\<lambda>x (a, b). (F x a, G x b)) xs = (\<lambda>(a, b). (fold F xs a, fold G xs b))"
  by (rule ext) (auto simp: fold_pair)

lemma sum_list_delta:
  fixes f :: "nat \<Rightarrow> real"
  shows "(\<Sum>j\<leftarrow>[0..<n]. if b = j then f j else 0) = (if b < n then f b else 0)"
  by (induction n) auto

lemma sum_list_cong_upt:
  fixes f g :: "nat \<Rightarrow> real"
  assumes "\<And>i. i < n \<Longrightarrow> f i = g i"
  shows "(\<Sum>i\<leftarrow>[0..<n]. f i) = (\<Sum>i\<leftarrow>[0..<n]. g i)"
  using assms by (intro arg_cong [where f = sum_list] map_cong) auto

section \<open>Integration on one cell\<close>

lemma add_stiffness_apply:
  "add_stiffness sdim fv q i j cm a b =
     cm a b + (if a = i \<and> b = j
               then tensor_dot sdim (shape_grad fv i q) (shape_grad fv j q) * JxW fv q else 0)"
  by (simp add: add_stiffness_def)

lemma integrate_multigrid_cell_apply:
  "integrate_multigrid_cell sdim n n_q fv a b =
     (if a < n \<and> b < n then quadrature_stiffness sdim n_q fv a b else 0)"
proof -
  let ?K = "\<lambda>q i j. tensor_dot sdim (shape_grad fv i q) (shape_grad fv j q) * JxW fv q"
  have j_loop: "fold (add_stiffness sdim fv q i) [0..<n] cm a b =
                  cm a b + (if a = i \<and> b < n then ?K q i b else 0)" for q i cm
  proof -
    have "fold (add_stiffness sdim fv q i) [0..<n] cm a b =
            cm a b + (\<Sum>j\<leftarrow>[0..<n]. if a = i \<and> b = j then ?K q i j else 0)"
      by (rule fold_plus [where v = "\<lambda>cm. cm a b"]) (rule add_stiffness_apply)
    also have "(\<Sum>j\<leftarrow>[0..<n]. if a = i \<and> b = j then ?K q i j else 0) =
               (if a = i then (\<Sum>j\<leftarrow>[0..<n]. if b = j then ?K q i j else 0) else 0)"
      by simp
    finally show ?thesis by (simp add: sum_list_delta)
  qed
  have i_loop: "fold (\<lambda>i. fold (add_stiffness sdim fv q i) [0..<n]) [0..<n] cm a b =
                  cm a b + (if a < n \<and> b < n then ?K q a b else 0)" for q cm
  proof -
    have "fold (\<lambda>i. fold (add_stiffness sdim fv q i) [0..<n]) [0..<n] cm a b =
            cm a b + (\<Sum>i\<leftarrow>[0..<n]. if a = i then (if b < n then ?K q i b else 0) else 0)"
      by (rule fold_plus [where v = "\<lambda>cm. cm a b"]) (simp add: j_loop)
    then show ?thesis by (simp add: sum_list_delta)
  qed
  have "integrate_multigrid_cell sdim n n_q fv a b =
          (\<lambda>i j. 0) a b + (\<Sum>q\<leftarrow>[0..<n_q]. if a < n \<and> b < n then ?K q a b else 0)"
    unfolding integrate_multigrid_cell_def
    by (rule fold_plus [where v = "\<lambda>cm. cm a b"]) (rule i_loop)
  then show ?thesis
    by (cases "a < n \<and> b < n") (auto simp: quadrature_stiffness_def)
qed

lemma integrate_system_cell_split:
  "integrate_system_cell sdim n n_q fv =
     (integrate_multigrid_cell sdim n n_q fv,
      fold (\<lambda>q. fold (\<lambda>i cr. cr(i := cr i + shape_value fv i q * JxW fv q)) [0..<n])
        [0..<n_q] (\<lambda>i. 0))"
  by (simp add: integrate_system_cell_def integrate_multigrid_cell_def fold_pair_fun fold_pair)

lemma integrate_rhs_apply:
  "fold (\<lambda>q. fold (\<lambda>i cr. cr(i := cr i + shape_value fv i q * JxW fv q)) [0..<n])
     [0..<n_q] (\<lambda>i. 0) a = (if a < n then quadrature_load n_q fv a else 0)"
proof -
  let ?V = "\<lambda>q i. shape_value fv i q * JxW fv q"
  have i_loop: "fold (\<lambda>i cr. cr(i := cr i + ?V q i)) [0..<n] cr a =
                  cr a + (if a < n then ?V q a else 0)" for q and cr :: "nat \<Rightarrow> real"
  proof -
    have "fold (\<lambda>i cr. cr(i := cr i + ?V q i)) [0..<n] cr a =
            cr a + (\<Sum>i\<leftarrow>[0..<n]. if a = i then ?V q i else 0)"
      by (rule fold_plus [where v = "\<lambda>cr. cr a"]) simp
    then show ?thesis by (simp add: sum_list_delta)
  qed
  have "fold (\<lambda>q. fold (\<lambda>i cr. cr(i := cr i + ?V q i)) [0..<n]) [0..<n_q] (\<lambda>i. 0) a =
          (\<lambda>i. 0) a + (\<Sum>q\<leftarrow>[0..<n_q]. if a < n then ?V q a else 0)"
    by (rule fold_plus [where v = "\<lambda>cr. cr a"]) (rule i_loop)
  then show ?thesis
    by (cases "a < n") (simp_all add: quadrature_load_def)
qed


section \<open>Scatter of one cell\<close>

lemma SparseMatrix_add_apply:
  fixes A :: "real SparseMatrix"
  shows "sm_val (SparseMatrix_add A i j a) r c = sm_val A r c + (if i = r \<and> j = c then a else 0)"
  by (simp add: SparseMatrix_add_def)

lemma Vector_add_apply:
  "vec_val (Vector_add v i a) r = vec_val v r + (if i = r then a else 0)"
  by (simp add: Vector_add_def)

lemma scatter_system_cell_split:
  "scatter_system_cell n idx cm cr (A, b) =
     (fold (\<lambda>i. fold (\<lambda>j A'. SparseMatrix_add A' (idx ! i) (idx ! j) (cm i j)) [0..<n]) [0..<n] A,
      fold (\<lambda>i b'. Vector_add b' (idx ! i) (cr i)) [0..<n] b)"
  by (simp add: scatter_system_cell_def fold_pair)

lemma scatter_matrix_apply:
  fixes A :: "real SparseMatrix"
  shows "sm_val (fold (\<lambda>i. fold (\<lambda>j A'. SparseMatrix_add A' (idx ! i) (idx ! j) (cm i j)) [0..<n])
             [0..<n] A) r c =
     sm_val A r c + (\<Sum>i\<leftarrow>[0..<n]. \<Sum>j\<leftarrow>[0..<n]. if idx ! i = r \<and> idx ! j = c then cm i j else 0)"
proof (rule fold_plus [where v = "\<lambda>A. sm_val A r c"])
  fix i and A :: "real SparseMatrix"
  show "sm_val (fold (\<lambda>j A'. SparseMatrix_add A' (idx ! i) (idx ! j) (cm i j)) [0..<n] A) r c =
          sm_val A r c + (\<Sum>j\<leftarrow>[0..<n]. if idx ! i = r \<and> idx ! j = c then cm i j else 0)"
    by (rule fold_plus [where v = "\<lambda>A. sm_val A r c"]) (rule SparseMatrix_add_apply)
qed

lemma scatter_vector_apply:
  "vec_val (fold (\<lambda>i b'. Vector_add b' (idx ! i) (cr i)) [0..<n] b) r =
     vec_val b r + (\<Sum>i\<leftarrow>[0..<n]. if idx ! i = r then cr i else 0)"
  by (rule fold_plus [where v = "\<lambda>b. vec_val b r"]) (rule Vector_add_apply)

section \<open>The loop over the active cells\<close>

text \<open>What one cell adds to entry \<open>(r, c)\<close> of the matrix and to entry \<open>r\<close> of the vector.\<close>

lemma assemble_system_cell_matrix:
  "sm_val (system_matrix (assemble_system_cell sdim lib cell s)) r c =
     sm_val (system_matrix s) r c +
     (\<Sum>i\<leftarrow>[0..<fe_dofs_per_cell lib]. \<Sum>j\<leftarrow>[0..<fe_dofs_per_cell lib].
        if dof_index (mg_dof_handler s) cell i = r \<and> dof_index (mg_dof_handler s) cell j = c
        then quadrature_stiffness sdim (n_quadrature_points lib)
               (fe_values_reinit lib (triangulation s) cell) i j
        else 0)"
proof -
  let ?n = "fe_dofs_per_cell lib"
  let ?idx = "map (dof_index (mg_dof_handler s) cell) [0..<?n]"
  let ?fv = "fe_values_reinit lib (triangulation s) cell"
  let ?cm = "integrate_multigrid_cell sdim ?n (n_quadrature_points lib) ?fv"
  have "sm_val (system_matrix (assemble_system_cell sdim lib cell s)) r c =
          sm_val (system_matrix s) r c +
          (\<Sum>i\<leftarrow>[0..<?n]. \<Sum>j\<leftarrow>[0..<?n]. if ?idx ! i = r \<and> ?idx ! j = c then ?cm i j else 0)"
    by (simp add: assemble_system_cell_def Let_def integrate_system_cell_split
          scatter_system_cell_split scatter_matrix_apply del: upt.simps cong: if_cong)
  also have "(\<Sum>i\<leftarrow>[0..<?n]. \<Sum>j\<leftarrow>[0..<?n]. if ?idx ! i = r \<and> ?idx ! j = c then ?cm i j else 0) =
             (\<Sum>i\<leftarrow>[0..<?n]. \<Sum>j\<leftarrow>[0..<?n].
                if dof_index (mg_dof_handler s) cell i = r \<and> dof_index (mg_dof_handler s) cell j = c
                then quadrature_stiffness sdim (n_quadrature_points lib) ?fv i j else 0)"
    by (intro sum_list_cong_upt) (simp add: integrate_multigrid_cell_apply)
  finally show ?thesis .
qed

lemma assemble_system_cell_rhs:
  "vec_val (system_rhs (assemble_system_cell sdim lib cell s)) r =
     vec_val (system_rhs s) r +
     (\<Sum>i\<leftarrow>[0..<fe_dofs_per_cell lib].
        if dof_index (mg_dof_handler s) cell i = r
        then quadrature_load (n_quadrature_points lib)
               (fe_values_reinit lib (triangulation s) cell) i
        else 0)"
proof -
  let ?n = "fe_dofs_per_cell lib"
  let ?idx = "map (dof_index (mg_dof_handler s) cell) [0..<?n]"
  let ?fv = "fe_values_reinit lib (triangulation s) cell"
  let ?cr = "fold (\<lambda>q. fold (\<lambda>i cr. cr(i := cr i + shape_value ?fv i q * JxW ?fv q)) [0..<?n])
               [0..<n_quadrature_points lib] (\<lambda>i. 0)"
  have "vec_val (system_rhs (assemble_system_cell sdim lib cell s)) r =
          vec_val (system_rhs s) r + (\<Sum>i\<leftarrow>[0..<?n]. if ?idx ! i = r then ?cr i else 0)"
    by (simp add: assemble_system_cell_def Let_def integrate_system_cell_split
          scatter_system_cell_split scatter_vector_apply del: upt.simps cong: if_cong)
  also have "(\<Sum>i\<leftarrow>[0..<?n]. if ?idx ! i = r then ?cr i else 0) =
             (\<Sum>i\<leftarrow>[0..<?n]. if dof_index (mg_dof_handler s) cell i = r
                               then quadrature_load (n_quadrature_points lib) ?fv i else 0)"
    by (intro sum_list_cong_upt) (simp add: integrate_rhs_apply)
  finally show ?thesis .
qed

lemma assemble_system_cell_frame:
  "\<exists>A b. assemble_system_cell sdim lib cell s = s\<lparr>system_matrix := A, system_rhs := b\<rparr>"
proof -
  obtain cm cr where 1: "integrate_system_cell sdim (fe_dofs_per_cell lib) (n_quadrature_points lib)
      (fe_values_reinit lib (triangulation s) cell) = (cm, cr)"
    by (cases "integrate_system_cell sdim (fe_dofs_per_cell lib) (n_quadrature_points lib)
      (fe_values_reinit lib (triangulation s) cell)") auto
  obtain A b where 2: "scatter_system_cell (fe_dofs_per_cell lib)
      (map (dof_index (mg_dof_handler s) cell) [0..<fe_dofs_per_cell lib]) cm cr
      (system_matrix s, system_rhs s) = (A, b)"
    by (cases "scatter_system_cell (fe_dofs_per_cell lib)
      (map (dof_index (mg_dof_handler s) cell) [0..<fe_dofs_per_cell lib]) cm cr
      (system_matrix s, system_rhs s)") auto
  have "assemble_system_cell sdim lib cell s = s\<lparr>system_matrix := A, system_rhs := b\<rparr>"
    by (simp add: assemble_system_cell_def Let_def 1 2)
  then show ?thesis by blast
qed

lemma fold_assemble_system_cell_frame:
  "\<exists>A b. fold (assemble_system_cell sdim lib) cs s = s\<lparr>system_matrix := A, system_rhs := b\<rparr>"
proof (induction cs arbitrary: s)
  case Nil
  have "s = s\<lparr>system_matrix := system_matrix s, system_rhs := system_rhs s\<rparr>" by simp
  then show ?case by (metis fold_simps(1))
next
  case (Cons c cs)
  obtain A b where 1: "assemble_system_cell sdim lib c s = s\<lparr>system_matrix := A, system_rhs := b\<rparr>"
    using assemble_system_cell_frame by blast
  obtain A' b' where "fold (assemble_system_cell sdim lib) cs (s\<lparr>system_matrix := A, system_rhs := b\<rparr>)
      = s\<lparr>system_matrix := A, system_rhs := b\<rparr>\<lparr>system_matrix := A', system_rhs := b'\<rparr>"
    using Cons.IH by blast
  then have "fold (assemble_system_cell sdim lib) (c # cs) s = s\<lparr>system_matrix := A', system_rhs := b'\<rparr>"
    by (simp add: 1)
  then show ?case by blast
qed

lemma assemble_system_cells_frame:
  "assemble_system_cells sdim lib s =
     s\<lparr>system_matrix := system_matrix (assemble_system_cells sdim lib s),
       system_rhs := system_rhs (assemble_system_cells sdim lib s)\<rparr>"
proof -
  obtain A b where "assemble_system_cells sdim lib s = s\<lparr>system_matrix := A, system_rhs := b\<rparr>"
    unfolding assemble_system_cells_def using fold_assemble_system_cell_frame by blast
  then show ?thesis by simp
qed

lemma assemble_system_cell_keeps:
  "triangulation (assemble_system_cell sdim lib cell s) = triangulation s"
  "mg_dof_handler (assemble_system_cell sdim lib cell s) = mg_dof_handler s"
proof -
  obtain A b where "assemble_system_cell sdim lib cell s = s\<lparr>system_matrix := A, system_rhs := b\<rparr>"
    using assemble_system_cell_frame by blast
  then show "triangulation (assemble_system_cell sdim lib cell s) = triangulation s"
    and "mg_dof_handler (assemble_system_cell sdim lib cell s) = mg_dof_handler s"
    by simp_all
qed

lemma assemble_system_cells_closed_form:
  "sm_val (system_matrix (assemble_system_cells sdim lib s)) r c =
     sm_val (system_matrix s) r c +
     (\<Sum>cell\<leftarrow>active_cells (triangulation s).
        \<Sum>i\<leftarrow>[0..<fe_dofs_per_cell lib]. \<Sum>j\<leftarrow>[0..<fe_dofs_per_cell lib].
          if dof_index (mg_dof_handler s) cell i = r \<and> dof_index (mg_dof_handler s) cell j = c
          then quadrature_stiffness sdim (n_quadrature_points lib)
                 (fe_values_reinit lib (triangulation s) cell) i j
          else 0)
   \<and> vec_val (system_rhs (assemble_system_cells sdim lib s)) r =
     vec_val (system_rhs s) r +
     (\<Sum>cell\<leftarrow>active_cells (triangulation s).
        \<Sum>i\<leftarrow>[0..<fe_dofs_per_cell lib].
          if dof_index (mg_dof_handler s) cell i = r
          then quadrature_load (n_quadrature_points lib)
                 (fe_values_reinit lib (triangulation s) cell) i
          else 0)"
proof -
  let ?P = "\<lambda>s'. triangulation s' = triangulation s \<and> mg_dof_handler s' = mg_dof_handler s"
  let ?M = "\<lambda>cell. \<Sum>i\<leftarrow>[0..<fe_dofs_per_cell lib]. \<Sum>j\<leftarrow>[0..<fe_dofs_per_cell lib].
          if dof_index (mg_dof_handler s) cell i = r \<and> dof_index (mg_dof_handler s) cell j = c
          then quadrature_stiffness sdim (n_quadrature_points lib)
                 (fe_values_reinit lib (triangulation s) cell) i j
          else 0"
  let ?V = "\<lambda>cell. \<Sum>i\<leftarrow>[0..<fe_dofs_per_cell lib].
          if dof_index (mg_dof_handler s) cell i = r
          then quadrature_load (n_quadrature_points lib)
                 (fe_values_reinit lib (triangulation s) cell) i
          else 0"
  have start: "?P s" by simp
  have keep: "?P (assemble_system_cell sdim lib cell s')" if "?P s'" for cell s'
    using that by (simp add: assemble_system_cell_keeps)
  have m_step: "sm_val (system_matrix (assemble_system_cell sdim lib cell s')) r c =
                  sm_val (system_matrix s') r c + ?M cell" if "?P s'" for cell s'
    using that by (simp add: assemble_system_cell_matrix cong: if_cong)
  have v_step: "vec_val (system_rhs (assemble_system_cell sdim lib cell s')) r =
                  vec_val (system_rhs s') r + ?V cell" if "?P s'" for cell s'
    using that by (simp add: assemble_system_cell_rhs cong: if_cong)
  have m: "sm_val (system_matrix (fold (assemble_system_cell sdim lib) cs s)) r c =
             sm_val (system_matrix s) r c + (\<Sum>cell\<leftarrow>cs. ?M cell)" for cs
    using fold_plus_invariant [where P = ?P and v = "\<lambda>s'. sm_val (system_matrix s') r c"
        and step = "assemble_system_cell sdim lib" and h = ?M, OF start keep m_step]
    by blast
  have v: "vec_val (system_rhs (fold (assemble_system_cell sdim lib) cs s)) r =
             vec_val (system_rhs s) r + (\<Sum>cell\<leftarrow>cs. ?V cell)" for cs
    using fold_plus_invariant [where P = ?P and v = "\<lambda>s'. vec_val (system_rhs s') r"
        and step = "assemble_system_cell sdim lib" and h = ?V, OF start keep v_step]
    by blast
  show ?thesis
    unfolding assemble_system_cells_def using m v by blast
qed

text \<open>
  Claim C2. For every active cell and every pair of local basis indices \<open>(i, j)\<close>, the
  global assembler adds to the matrix entry \<open>A[global_i, global_j]\<close> the quadrature sum
  of \<open>grad \<phi>\<^sub>i \<cdot> grad \<phi>\<^sub>j \<cdot> w\<close>, and to \<open>b[global_i]\<close> the quadrature sum of \<open>\<phi>\<^sub>i \<cdot> f \<cdot> w\<close>
  with the constant source \<open>f = 1\<close>, scattering through the cell's global DoF indices:
  after the loop over the active cells, every entry is its value before the loop
  plus the sum of exactly these contributions.
\<close>

theorem assemble_system_cells_scatter:
  "sm_val (system_matrix (assemble_system_cells sdim lib s)) r c =
     sm_val (system_matrix s) r c +
     (\<Sum>cell\<leftarrow>active_cells (triangulation s).
        \<Sum>i\<leftarrow>[0..<fe_dofs_per_cell lib]. \<Sum>j\<leftarrow>[0..<fe_dofs_per_cell lib].
          if dof_index (mg_dof_handler s) cell i = r \<and> dof_index (mg_dof_handler s) cell j = c
          then quadrature_stiffness sdim (n_quadrature_points lib)
                 (fe_values_reinit lib (triangulation s) cell) i j
          else 0)
   \<and> vec_val (system_rhs (assemble_system_cells sdim lib s)) r =
     vec_val (system_rhs s) r +
     (\<Sum>cell\<leftarrow>active_cells (triangulation s).
        \<Sum>i\<leftarrow>[0..<fe_dofs_per_cell lib].
          if dof_index (mg_dof_handler s) cell i = r
          then quadrature_load (n_quadrature_points lib)
                 (fe_values_reinit lib (triangulation s) cell) i
          else 0)"
  by (rule assemble_system_cells_closed_form)

section \<open>setup_system\<close>

lemma bind_error_simps [simp]:
  "bind_error (Inl e) f = Inl e"
  "bind_error (Inr x) f = f x"
  by (simp_all add: bind_error_def)

lemma bind_error_Inr [simp]: "bind_error r Inr = r"
  by (cases r) simp_all

lemma for_each_Nil [simp]: "for_each body [] = Inr"
  by (rule ext) simp

lemma for_each_append:
  "for_each body (xs @ ys) s = bind_error (for_each body xs s) (for_each body ys)"
  by (induction xs arbitrary: s) (auto simp: bind_error_def split: sum.splits)

lemma fold_SparsityPattern_add_dims:
  "sp_rows (fold SparsityPattern_add ps sp) = sp_rows sp"
  "sp_cols (fold SparsityPattern_add ps sp) = sp_cols sp"
  by (induction ps arbitrary: sp) (simp_all add: SparsityPattern_add_def)

lemma level_sparsity_dims:
  "sp_rows (level_sparsity lib dof level) = n_dofs_on_level dof level"
  "sp_cols (level_sparsity lib dof level) = n_dofs_on_level dof level"
  by (simp_all add: level_sparsity_def SparsityPattern_compress_def
        fold_SparsityPattern_add_dims SparsityPattern_reinit_def)

lemma global_sparsity_dims:
  "sp_rows (global_sparsity lib dof) = n_dofs dof"
  "sp_cols (global_sparsity lib dof) = n_dofs dof"
  by (simp_all add: global_sparsity_def SparsityPattern_compress_def
        fold_SparsityPattern_add_dims SparsityPattern_reinit_def)

lemma MGLevelObject_modify_in_range:
  assumes "minlevel obj = 0" and "i < length (objects obj)"
  shows "MGLevelObject_modify obj i f = Inr (obj\<lparr>objects := (objects obj)[i := f (objects obj ! i)]\<rparr>)"
  using assms by (simp add: MGLevelObject_modify_def MGLevelObject_get_def MGLevelObject_in_range_def)

lemma MGLevelObject_get_in_range:
  assumes "minlevel obj = 0" and "i < length (objects obj)"
  shows "MGLevelObject_get obj i = Inr (objects obj ! i)"
  using assms by (simp add: MGLevelObject_get_def MGLevelObject_in_range_def)

lemma setup_level_in_range:
  assumes "minlevel (mg_sparsity s) = 0" and "level < length (objects (mg_sparsity s))"
    and "minlevel (mg_matrices s) = 0" and "level < length (objects (mg_matrices s))"
  shows "setup_level lib level s =
     Inr (s\<lparr>mg_sparsity := (mg_sparsity s)\<lparr>objects :=
                (objects (mg_sparsity s))[level := level_sparsity lib (mg_dof_handler s) level]\<rparr>,
            mg_matrices := (mg_matrices s)\<lparr>objects :=
                (objects (mg_matrices s))[level :=
                   SparseMatrix_reinit (level_sparsity lib (mg_dof_handler s) level)]\<rparr>\<rparr>)"
  using assms
  by (simp add: setup_level_def MGLevelObject_modify_in_range MGLevelObject_get_in_range
        level_sparsity_def)

lemma update_prefix_drop:
  assumes "k < length xs"
  shows "(map f [0..<k] @ drop k xs)[k := f k] = map f [0..<Suc k] @ drop (Suc k) xs"
proof -
  have "drop k xs = xs ! k # drop (Suc k) xs"
    using assms by (simp add: Cons_nth_drop_Suc)
  then show ?thesis
    by (simp add: list_update_append)
qed

lemma setup_levels_loop:
  assumes "minlevel (mg_sparsity s) = 0" and "k \<le> length (objects (mg_sparsity s))"
    and "minlevel (mg_matrices s) = 0" and "k \<le> length (objects (mg_matrices s))"
  shows "for_each (setup_level lib) [0..<k] s =
     Inr (s\<lparr>mg_sparsity := \<lparr>minlevel = 0, objects =
                map (level_sparsity lib (mg_dof_handler s)) [0..<k]
                  @ drop k (objects (mg_sparsity s))\<rparr>,
            mg_matrices := \<lparr>minlevel = 0, objects =
                map (\<lambda>l. SparseMatrix_reinit (level_sparsity lib (mg_dof_handler s) l)) [0..<k]
                  @ drop k (objects (mg_matrices s))\<rparr>\<rparr>)"
  using assms
proof (induction k)
  case 0
  then show ?case by simp
next
  case (Suc k)
  let ?sk = "s\<lparr>mg_sparsity := \<lparr>minlevel = 0, objects =
                map (level_sparsity lib (mg_dof_handler s)) [0..<k]
                  @ drop k (objects (mg_sparsity s))\<rparr>,
            mg_matrices := \<lparr>minlevel = 0, objects =
                map (\<lambda>l. SparseMatrix_reinit (level_sparsity lib (mg_dof_handler s) l)) [0..<k]
                  @ drop k (objects (mg_matrices s))\<rparr>\<rparr>"
  have ih: "for_each (setup_level lib) [0..<k] s = Inr ?sk"
    using Suc by simp
  have k1: "k < length (objects (mg_sparsity s))" and k2: "k < length (objects (mg_matrices s))"
    using Suc.prems by simp_all
  have step: "setup_level lib k ?sk =
     Inr (?sk\<lparr>mg_sparsity := (mg_sparsity ?sk)\<lparr>objects :=
                (objects (mg_sparsity ?sk))[k := level_sparsity lib (mg_dof_handler ?sk) k]\<rparr>,
            mg_matrices := (mg_matrices ?sk)\<lparr>objects :=
                (objects (mg_matrices ?sk))[k :=
                   SparseMatrix_reinit (level_sparsity lib (mg_dof_handler ?sk) k)]\<rparr>\<rparr>)"
    using k1 k2 by (intro setup_level_in_range) simp_all
  have "for_each (setup_level lib) [0..<Suc k] s = setup_level lib k ?sk"
    by (simp add: for_each_append ih)
  also note step
  finally show ?case
    using update_prefix_drop [OF k1, of "level_sparsity lib (mg_dof_handler s)"]
      update_prefix_drop [OF k2, of "\<lambda>l. SparseMatrix_reinit (level_sparsity lib (mg_dof_handler s) l)"]
    by simp
qed

lemma level_slots_ge: "nlevels \<le> level_slots nlevels"
  by (simp add: level_slots_def unsigned_minus_def)

lemma level_slots_pos: "0 < nlevels \<Longrightarrow> level_slots nlevels = nlevels"
  by (simp add: level_slots_def unsigned_minus_def)

lemma resize_level_slots:
  "MGLevelObject_resize 0 (unsigned_minus nlevels 1) dflt =
     \<lparr>minlevel = 0, objects = replicate (level_slots nlevels) dflt\<rparr>"
  "MGLevelObject_resize 0 (unsigned_minus nlevels (Suc 0)) dflt =
     \<lparr>minlevel = 0, objects = replicate (level_slots nlevels) dflt\<rparr>"
  by (simp_all add: MGLevelObject_resize_def level_slots_def)

lemma setup_system_result:
  "setup_system lib s =
     Inr (s\<lparr>mg_dof_handler := distribute_dofs lib (triangulation s),
            cout := cout s @ [NumberOfDegreesOfFreedom (n_dofs (distribute_dofs lib (triangulation s)))],
            sparsity_pattern := global_sparsity lib (distribute_dofs lib (triangulation s)),
            system_matrix := SparseMatrix_reinit (global_sparsity lib (distribute_dofs lib (triangulation s))),
            solution := Vector_reinit (n_dofs (distribute_dofs lib (triangulation s))),
            system_rhs := Vector_reinit (n_dofs (distribute_dofs lib (triangulation s))),
            mg_sparsity := \<lparr>minlevel = 0, objects =
                map (level_sparsity lib (distribute_dofs lib (triangulation s)))
                  [0..<n_levels (triangulation s)]
                  @ replicate (level_slots (n_levels (triangulation s)) - n_levels (triangulation s))
                      SparsityPattern_default\<rparr>,
            mg_matrices := \<lparr>minlevel = 0, objects =
                map (\<lambda>l. SparseMatrix_reinit (level_sparsity lib (distribute_dofs lib (triangulation s)) l))
                  [0..<n_levels (triangulation s)]
                  @ replicate (level_slots (n_levels (triangulation s)) - n_levels (triangulation s))
                      SparseMatrix_default\<rparr>\<rparr>)"
proof -
  let ?L = "n_levels (triangulation s)"
  let ?dh = "distribute_dofs lib (triangulation s)"
  let ?s8 = "s\<lparr>mg_dof_handler := ?dh,
            cout := cout s @ [NumberOfDegreesOfFreedom (n_dofs ?dh)],
            sparsity_pattern := global_sparsity lib ?dh,
            system_matrix := SparseMatrix_reinit (global_sparsity lib ?dh),
            solution := Vector_reinit (n_dofs ?dh),
            system_rhs := Vector_reinit (n_dofs ?dh),
            mg_sparsity := MGLevelObject_resize 0 (unsigned_minus ?L 1) SparsityPattern_default,
            mg_matrices := MGLevelObject_resize 0 (unsigned_minus ?L 1) SparseMatrix_default\<rparr>"
  have 1: "setup_system lib s = for_each (setup_level lib) [0..<?L] ?s8"
    by (simp add: setup_system_def Let_def global_sparsity_def)
  have 2: "for_each (setup_level lib) [0..<?L] ?s8 =
     Inr (?s8\<lparr>mg_sparsity := \<lparr>minlevel = 0, objects =
                map (level_sparsity lib (mg_dof_handler ?s8)) [0..<?L]
                  @ drop ?L (objects (mg_sparsity ?s8))\<rparr>,
            mg_matrices := \<lparr>minlevel = 0, objects =
                map (\<lambda>l. SparseMatrix_reinit (level_sparsity lib (mg_dof_handler ?s8) l)) [0..<?L]
                  @ drop ?L (objects (mg_matrices ?s8))\<rparr>\<rparr>)"
    using level_slots_ge [of ?L]
    by (intro setup_levels_loop) (simp_all add: resize_level_slots)
  show ?thesis
    unfolding 1 2 by (simp add: resize_level_slots)
qed


lemma setup_system_total: "\<exists>s'. setup_system lib s = Inr s'"
  by (simp add: setup_system_result)

lemma setup_system_fields:
  assumes "setup_system lib s = Inr s'"
  shows "triangulation s' = triangulation s"
    and "mg_dof_handler s' = distribute_dofs lib (triangulation s)"
    and "system_matrix s' = SparseMatrix_reinit (global_sparsity lib (distribute_dofs lib (triangulation s)))"
    and "solution s' = Vector_reinit (n_dofs (distribute_dofs lib (triangulation s)))"
    and "system_rhs s' = Vector_reinit (n_dofs (distribute_dofs lib (triangulation s)))"
    and "mg_matrices s' = \<lparr>minlevel = 0, objects =
                map (\<lambda>l. SparseMatrix_reinit (level_sparsity lib (distribute_dofs lib (triangulation s)) l))
                  [0..<n_levels (triangulation s)]
                  @ replicate (level_slots (n_levels (triangulation s)) - n_levels (triangulation s))
                      SparseMatrix_default\<rparr>"
  using assms unfolding setup_system_result by auto

text \<open>
  Claim C9. After the setup step the per-level matrix container is indexed by every
  level in \<open>[0, L-1]\<close>, where \<open>L\<close> is the current number of mesh levels, and the matrix
  at level \<open>l\<close> is square with dimension the DoF count of level \<open>l\<close>'s own numbering.
  The mesh has its coarsest level (\<open>0 < L\<close>).
\<close>

theorem setup_system_level_matrices:
  assumes "0 < n_levels (triangulation s)"
  shows "\<exists>s'. setup_system lib s = Inr s'
           \<and> triangulation s' = triangulation s
           \<and> minlevel (mg_matrices s') = 0
           \<and> length (objects (mg_matrices s')) = n_levels (triangulation s')
           \<and> (\<forall>level. MGLevelObject_in_range (mg_matrices s') level
                        = (level < n_levels (triangulation s')))
           \<and> (\<forall>level < n_levels (triangulation s').
                 \<exists>M. MGLevelObject_get (mg_matrices s') level = Inr M
                     \<and> sm_rows M = n_dofs_on_level (mg_dof_handler s') level
                     \<and> sm_cols M = n_dofs_on_level (mg_dof_handler s') level)"
proof -
  obtain s' where ok: "setup_system lib s = Inr s'"
    using setup_system_total by blast
  note f = setup_system_fields [OF ok]
  let ?L = "n_levels (triangulation s)"
  let ?dh = "distribute_dofs lib (triangulation s)"
  have objs: "objects (mg_matrices s') = map (\<lambda>l. SparseMatrix_reinit (level_sparsity lib ?dh l)) [0..<?L]"
    and min0: "minlevel (mg_matrices s') = 0"
    using assms by (simp_all add: f(6) level_slots_pos)
  have len: "length (objects (mg_matrices s')) = ?L"
    by (simp add: objs)
  have range: "MGLevelObject_in_range (mg_matrices s') level = (level < ?L)" for level
    by (simp add: MGLevelObject_in_range_def min0 len)
  have slot: "\<exists>M. MGLevelObject_get (mg_matrices s') level = Inr M
                \<and> sm_rows M = n_dofs_on_level (mg_dof_handler s') level
                \<and> sm_cols M = n_dofs_on_level (mg_dof_handler s') level" if "level < ?L" for level
    using that
    by (simp add: MGLevelObject_get_def range min0 objs f(2) SparseMatrix_reinit_def
          level_sparsity_dims)
  show ?thesis
    using ok f(1) min0 len range slot by auto
qed

section \<open>Symmetry of the assembled matrix\<close>

lemma sum_list_swap:
  fixes f :: "'a \<Rightarrow> 'b \<Rightarrow> real"
  shows "(\<Sum>x\<leftarrow>xs. \<Sum>y\<leftarrow>ys. f x y) = (\<Sum>y\<leftarrow>ys. \<Sum>x\<leftarrow>xs. f x y)"
  by (induction xs) (simp_all add: sum_list_addf)

lemma tensor_dot_commute: "tensor_dot sdim a b = tensor_dot sdim b a"
  by (simp add: tensor_dot_def mult.commute)

lemma quadrature_stiffness_commute:
  "quadrature_stiffness sdim n_q fv i j = quadrature_stiffness sdim n_q fv j i"
  by (simp add: quadrature_stiffness_def tensor_dot_commute [of sdim "shape_grad fv i _"])

lemma cell_contribution_symmetric:
  fixes Q :: "nat \<Rightarrow> nat \<Rightarrow> real"
  assumes "\<And>i j. Q i j = Q j i"
  shows "(\<Sum>i\<leftarrow>[0..<n]. \<Sum>j\<leftarrow>[0..<n]. if g i = r \<and> g j = c then Q i j else 0) =
         (\<Sum>i\<leftarrow>[0..<n]. \<Sum>j\<leftarrow>[0..<n]. if g i = c \<and> g j = r then Q i j else 0)"
proof -
  have "(\<Sum>i\<leftarrow>[0..<n]. \<Sum>j\<leftarrow>[0..<n]. if g i = r \<and> g j = c then Q i j else 0) =
        (\<Sum>j\<leftarrow>[0..<n]. \<Sum>i\<leftarrow>[0..<n]. if g i = r \<and> g j = c then Q i j else 0)"
    by (rule sum_list_swap)
  also have "\<dots> = (\<Sum>j\<leftarrow>[0..<n]. \<Sum>i\<leftarrow>[0..<n]. if g j = c \<and> g i = r then Q j i else 0)"
    by (simp add: assms [symmetric] conj_commute cong: if_cong)
  finally show ?thesis .
qed

section \<open>Frame of the global assembler\<close>

lemma apply_zero_boundary_values_frame:
  "\<exists>A x b. apply_zero_boundary_values lib s = s\<lparr>system_matrix := A, solution := x, system_rhs := b\<rparr>"
  by (cases "apply_boundary_values (interpolate_boundary_values lib (mg_dof_handler s) 0 ZeroFunction)
        (system_matrix s, solution s, system_rhs s)")
     (auto simp: apply_zero_boundary_values_def Let_def)

lemma assemble_system_frame:
  "\<exists>A x b. assemble_system sdim lib s = s\<lparr>system_matrix := A, solution := x, system_rhs := b\<rparr>"
proof -
  obtain A b where 1: "assemble_system_cells sdim lib s = s\<lparr>system_matrix := A, system_rhs := b\<rparr>"
    unfolding assemble_system_cells_def using fold_assemble_system_cell_frame by blast
  obtain A' x' b' where "apply_zero_boundary_values lib (s\<lparr>system_matrix := A, system_rhs := b\<rparr>) =
      s\<lparr>system_matrix := A, system_rhs := b\<rparr>\<lparr>system_matrix := A', solution := x', system_rhs := b'\<rparr>"
    using apply_zero_boundary_values_frame by blast
  then have "assemble_system sdim lib s = s\<lparr>system_matrix := A', solution := x', system_rhs := b'\<rparr>"
    by (simp add: assemble_system_def 1)
  then show ?thesis by blast
qed

lemma assemble_system_keeps:
  "triangulation (assemble_system sdim lib s) = triangulation s"
  "mg_dof_handler (assemble_system sdim lib s) = mg_dof_handler s"
  "mg_matrices (assemble_system sdim lib s) = mg_matrices s"
  "mg_sparsity (assemble_system sdim lib s) = mg_sparsity s"
  "cout (assemble_system sdim lib s) = cout s"
  "files (assemble_system sdim lib s) = files s"
proof -
  obtain A x b where "assemble_system sdim lib s = s\<lparr>system_matrix := A, solution := x, system_rhs := b\<rparr>"
    using assemble_system_frame by blast
  then show "triangulation (assemble_system sdim lib s) = triangulation s"
    "mg_dof_handler (assemble_system sdim lib s) = mg_dof_handler s"
    "mg_matrices (assemble_system sdim lib s) = mg_matrices s"
    "mg_sparsity (assemble_system sdim lib s) = mg_sparsity s"
    "cout (assemble_system sdim lib s) = cout s"
    "files (assemble_system sdim lib s) = files s"
    by simp_all
qed

section \<open>The assembler is a function of what it reads\<close>

lemma assemble_system_cell_view:
  assumes "assembly_view s = assembly_view s'"
  shows "assembly_view (assemble_system_cell sdim lib cell s) =
         assembly_view (assemble_system_cell sdim lib cell s')"
proof -
  from assms have eq: "triangulation s = triangulation s'" "mg_dof_handler s = mg_dof_handler s'"
    "system_matrix s = system_matrix s'" "solution s = solution s'" "system_rhs s = system_rhs s'"
    by (simp_all add: assembly_view_def)
  obtain cm cr where 1: "integrate_system_cell sdim (fe_dofs_per_cell lib) (n_quadrature_points lib)
      (fe_values_reinit lib (triangulation s') cell) = (cm, cr)"
    by (cases "integrate_system_cell sdim (fe_dofs_per_cell lib) (n_quadrature_points lib)
      (fe_values_reinit lib (triangulation s') cell)") auto
  obtain A b where 2: "scatter_system_cell (fe_dofs_per_cell lib)
      (map (dof_index (mg_dof_handler s') cell) [0..<fe_dofs_per_cell lib]) cm cr
      (system_matrix s', system_rhs s') = (A, b)"
    by (cases "scatter_system_cell (fe_dofs_per_cell lib)
      (map (dof_index (mg_dof_handler s') cell) [0..<fe_dofs_per_cell lib]) cm cr
      (system_matrix s', system_rhs s')") auto
  have a: "assemble_system_cell sdim lib cell s' = s'\<lparr>system_matrix := A, system_rhs := b\<rparr>"
    by (simp add: assemble_system_cell_def Let_def 1 2)
  have b: "assemble_system_cell sdim lib cell s = s\<lparr>system_matrix := A, system_rhs := b\<rparr>"
    unfolding assemble_system_cell_def Let_def eq 1 by (simp add: 2)
  show ?thesis
    unfolding a b by (simp add: assembly_view_def eq)
qed

lemma fold_assemble_system_cell_view:
  assumes "assembly_view s = assembly_view s'"
  shows "assembly_view (fold (assemble_system_cell sdim lib) cs s) =
         assembly_view (fold (assemble_system_cell sdim lib) cs s')"
  using assms
proof (induction cs arbitrary: s s')
  case Nil
  then show ?case by simp
next
  case (Cons c cs)
  have "assembly_view (assemble_system_cell sdim lib c s) =
        assembly_view (assemble_system_cell sdim lib c s')"
    using Cons.prems by (rule assemble_system_cell_view)
  from Cons.IH [OF this] show ?case
    by simp
qed

lemma apply_zero_boundary_values_view:
  assumes "assembly_view s = assembly_view s'"
  shows "assembly_view (apply_zero_boundary_values lib s) =
         assembly_view (apply_zero_boundary_values lib s')"
proof -
  from assms have eq: "triangulation s = triangulation s'" "mg_dof_handler s = mg_dof_handler s'"
    "system_matrix s = system_matrix s'" "solution s = solution s'" "system_rhs s = system_rhs s'"
    by (simp_all add: assembly_view_def)
  obtain A x b where 1: "apply_boundary_values
        (interpolate_boundary_values lib (mg_dof_handler s') 0 ZeroFunction)
        (system_matrix s', solution s', system_rhs s') = (A, x, b)"
    by (cases "apply_boundary_values
        (interpolate_boundary_values lib (mg_dof_handler s') 0 ZeroFunction)
        (system_matrix s', solution s', system_rhs s')") auto
  have a: "apply_zero_boundary_values lib s' = s'\<lparr>system_matrix := A, solution := x, system_rhs := b\<rparr>"
    by (simp add: apply_zero_boundary_values_def Let_def 1)
  have b: "apply_zero_boundary_values lib s = s\<lparr>system_matrix := A, solution := x, system_rhs := b\<rparr>"
    unfolding apply_zero_boundary_values_def Let_def eq by (simp add: 1)
  show ?thesis
    unfolding a b by (simp add: assembly_view_def eq)
qed

lemma assemble_system_view:
  assumes "assembly_view s = assembly_view s'"
  shows "assembly_view (assemble_system sdim lib s) = assembly_view (assemble_system sdim lib s')"
proof -
  have "triangulation s = triangulation s'"
    using assms by (simp add: assembly_view_def)
  then have "assembly_view (assemble_system_cells sdim lib s) =
             assembly_view (assemble_system_cells sdim lib s')"
    unfolding assemble_system_cells_def
    using fold_assemble_system_cell_view [OF assms, of sdim lib "active_cells (triangulation s')"]
    by simp
  then show ?thesis
    unfolding assemble_system_def by (rule apply_zero_boundary_values_view)
qed

text \<open>
  Claim C6, as amended. Setup followed by the global assembler is repeatable on the
  same mesh: after a first Setup and assembly, running Setup and the assembler again
  (no refinement) gives the same global matrix and load vector as the first time.
  The reinitialisation in Setup clears the system; the assembler itself adds to
  whatever the matrix and vector hold.
\<close>

theorem setup_assemble_repeatable:
  assumes "setup_system lib s = Inr s1"
    and "setup_system lib (assemble_system sdim lib s1) = Inr s2"
  shows "system_matrix (assemble_system sdim lib s2) = system_matrix (assemble_system sdim lib s1)
       \<and> system_rhs (assemble_system sdim lib s2) = system_rhs (assemble_system sdim lib s1)"
proof -
  note f1 = setup_system_fields [OF assms(1)]
  note f2 = setup_system_fields [OF assms(2)]
  have t: "triangulation (assemble_system sdim lib s1) = triangulation s"
    by (simp add: assemble_system_keeps f1(1))
  have "assembly_view s2 = assembly_view s1"
    by (simp add: assembly_view_def f1 f2 t)
  then have "assembly_view (assemble_system sdim lib s2) = assembly_view (assemble_system sdim lib s1)"
    by (rule assemble_system_view)
  then show ?thesis
    by (simp add: assembly_view_def)
qed

text \<open>
  Claim C5. In every cycle the global matrix produced by the global assembler is
  symmetric before boundary elimination: on the system that Setup has reinitialised,
  the loop over the cells leaves \<open>A[i,j] = A[j,i]\<close> for all index pairs.
\<close>

theorem assembled_matrix_symmetric:
  assumes "setup_system lib s0 = Inr s"
  shows "sm_val (system_matrix (assemble_system_cells sdim lib s)) i j =
         sm_val (system_matrix (assemble_system_cells sdim lib s)) j i"
proof -
  have zero: "sm_val (system_matrix s) r c = 0" for r c
    by (simp add: setup_system_fields(3) [OF assms] SparseMatrix_reinit_def)
  have sym: "(\<Sum>a\<leftarrow>[0..<fe_dofs_per_cell lib]. \<Sum>b\<leftarrow>[0..<fe_dofs_per_cell lib].
          if dof_index (mg_dof_handler s) cell a = i \<and> dof_index (mg_dof_handler s) cell b = j
          then quadrature_stiffness sdim (n_quadrature_points lib)
                 (fe_values_reinit lib (triangulation s) cell) a b
          else 0) =
        (\<Sum>a\<leftarrow>[0..<fe_dofs_per_cell lib]. \<Sum>b\<leftarrow>[0..<fe_dofs_per_cell lib].
          if dof_index (mg_dof_handler s) cell a = j \<and> dof_index (mg_dof_handler s) cell b = i
          then quadrature_stiffness sdim (n_quadrature_points lib)
                 (fe_values_reinit lib (triangulation s) cell) a b
          else 0)" for cell
    by (rule cell_contribution_symmetric) (rule quadrature_stiffness_commute)
  have "sm_val (system_matrix (assemble_system_cells sdim lib s)) i j =
        (\<Sum>cell\<leftarrow>active_cells (triangulation s).
           \<Sum>a\<leftarrow>[0..<fe_dofs_per_cell lib]. \<Sum>b\<leftarrow>[0..<fe_dofs_per_cell lib].
             if dof_index (mg_dof_handler s) cell a = i \<and> dof_index (mg_dof_handler s) cell b = j
             then quadrature_stiffness sdim (n_quadrature_points lib)
                    (fe_values_reinit lib (triangulation s) cell) a b
             else 0)"
    using assemble_system_cells_closed_form [of sdim lib s i j] by (simp only: zero add_0)
  also have "\<dots> =
        (\<Sum>cell\<leftarrow>active_cells (triangulation s).
           \<Sum>a\<leftarrow>[0..<fe_dofs_per_cell lib]. \<Sum>b\<leftarrow>[0..<fe_dofs_per_cell lib].
             if dof_index (mg_dof_handler s) cell a = j \<and> dof_index (mg_dof_handler s) cell b = i
             then quadrature_stiffness sdim (n_quadrature_points lib)
                    (fe_values_reinit lib (triangulation s) cell) a b
             else 0)"
    by (simp only: sym)
  also have "\<dots> = sm_val (system_matrix (assemble_system_cells sdim lib s)) j i"
    using assemble_system_cells_closed_form [of sdim lib s j i] by (simp only: zero add_0)
  finally show ?thesis .
qed

section \<open>The level assembler\<close>

lemma MGLevelObject_modify_Inr:
  assumes "MGLevelObject_modify obj i f = Inr obj'"
  shows "minlevel obj' = minlevel obj" and "length (objects obj') = length (objects obj)"
  using assms
  by (auto simp: MGLevelObject_modify_def MGLevelObject_get_def bind_error_def split: if_splits)

lemma for_each_Inr_invariant:
  assumes "for_each body xs s = Inr s'"
    and "P s"
    and "\<And>x a b. P a \<Longrightarrow> body x a = Inr b \<Longrightarrow> P b"
  shows "P s'"
  using assms(1,2)
proof (induction xs arbitrary: s)
  case Nil
  then show ?case by simp
next
  case (Cons x xs)
  from Cons.prems(1) obtain a where a: "body x s = Inr a" and rest: "for_each body xs a = Inr s'"
    by (cases "body x s") simp_all
  have "P a" using assms(3) [OF Cons.prems(2) a] .
  from Cons.IH [OF rest this] show ?case .
qed

lemma assemble_multigrid_cell_frame:
  assumes "assemble_multigrid_cell sdim lib cell s = Inr s'"
  shows "\<exists>m. s' = s\<lparr>mg_matrices := m\<rparr>"
  using assms
  by (auto simp: assemble_multigrid_cell_def Let_def bind_error_def split: sum.splits)

lemma assemble_multigrid_cells_frame:
  assumes "assemble_multigrid_cells sdim lib s = Inr s'"
  shows "\<exists>m. s' = s\<lparr>mg_matrices := m\<rparr>"
proof -
  have "\<exists>m. s = s\<lparr>mg_matrices := m\<rparr>"
    by (rule exI [of _ "mg_matrices s"]) simp
  moreover have "\<exists>m. b = s\<lparr>mg_matrices := m\<rparr>"
    if "\<exists>m. a = s\<lparr>mg_matrices := m\<rparr>" and "assemble_multigrid_cell sdim lib x a = Inr b" for x a b
  proof -
    from that(1) obtain m where "a = s\<lparr>mg_matrices := m\<rparr>" by blast
    moreover from assemble_multigrid_cell_frame [OF that(2)] obtain m' where "b = a\<lparr>mg_matrices := m'\<rparr>"
      by blast
    ultimately have "b = s\<lparr>mg_matrices := m'\<rparr>" by simp
    then show ?thesis by blast
  qed
  ultimately show ?thesis
    using for_each_Inr_invariant [where P = "\<lambda>a. \<exists>m. a = s\<lparr>mg_matrices := m\<rparr>",
        OF assms [unfolded assemble_multigrid_cells_def]]
    by blast
qed

text \<open>
  What the level assembler does to the global system: its closing block applies the
  boundary values to \<^verbatim>\<open>system_matrix\<close>, \<^verbatim>\<open>solution\<close> and \<^verbatim>\<open>system_rhs\<close>.
\<close>

lemma assemble_multigrid_global_system:
  assumes "assemble_multigrid sdim lib s = Inr s'"
  shows "(system_matrix s', solution s', system_rhs s') =
           apply_boundary_values
             (interpolate_boundary_values lib (mg_dof_handler s) 0 ZeroFunction)
             (system_matrix s, solution s, system_rhs s)"
proof -
  from assms obtain s1 where 1: "assemble_multigrid_cells sdim lib s = Inr s1"
    and 2: "s' = apply_zero_boundary_values lib s1"
    by (cases "assemble_multigrid_cells sdim lib s") (auto simp: assemble_multigrid_def)
  from assemble_multigrid_cells_frame [OF 1] obtain m where m: "s1 = s\<lparr>mg_matrices := m\<rparr>"
    by blast
  obtain A x b where 3: "apply_boundary_values
        (interpolate_boundary_values lib (mg_dof_handler s) 0 ZeroFunction)
        (system_matrix s, solution s, system_rhs s) = (A, x, b)"
    by (cases "apply_boundary_values
        (interpolate_boundary_values lib (mg_dof_handler s) 0 ZeroFunction)
        (system_matrix s, solution s, system_rhs s)") auto
  show ?thesis
    unfolding 2 m 3 by (simp add: apply_zero_boundary_values_def Let_def 3)
qed

section \<open>run\<close>

lemma run_cycle_unfold:
  "run_cycle sdim lib cycle s0 =
     bind_error
       (setup_system lib
          (s0\<lparr>triangulation := cycle_mesh sdim cycle (triangulation s0),
               cout := cout s0 @ [Cycle cycle,
                  NumberOfActiveCells (n_active_cells (cycle_mesh sdim cycle (triangulation s0))),
                  TotalNumberOfCells (n_cells (cycle_mesh sdim cycle (triangulation s0)))]\<rparr>))
       (\<lambda>s4. bind_error (solve lib (assemble_system sdim lib s4))
          (\<lambda>s5. Inr (output_results lib cycle s5)))"
  by (cases "cycle = 0") (simp_all add: run_cycle_def Let_def cycle_mesh_def)


lemma setup_system_cout:
  assumes "setup_system lib s = Inr s'"
  shows "cout s' = cout s @ [NumberOfDegreesOfFreedom (n_dofs (distribute_dofs lib (triangulation s)))]"
  using assms unfolding setup_system_result by auto

lemma solve_frame:
  assumes "solve lib s = Inr s'"
  shows "\<exists>x k. s' = s\<lparr>solution := x, cout := cout s @ [CGIterations k]\<rparr>"
proof (cases "SolverCG_solve lib \<lparr>max_steps = 1000, tolerance = 1 / 10 ^ 12\<rparr> (system_matrix s)
         (solution s) (system_rhs s) (PreconditionSSOR_initialize (system_matrix s) (12 / 10))")
  case (Inl e)
  with assms show ?thesis by (simp add: solve_def Let_def)
next
  case (Inr xk)
  obtain x k where "xk = (x, k)" by (cases xk)
  with Inr assms have "s' = s\<lparr>solution := x, cout := cout s @ [CGIterations k]\<rparr>"
    by (simp add: solve_def Let_def)
  then show ?thesis by blast
qed


lemma output_results_frame:
  "\<exists>f. output_results lib cycle s = s\<lparr>files := f\<rparr>"
  unfolding output_results_def Let_def by (rule exI) (rule refl)

lemma run_cycle_Inr:
  assumes "run_cycle sdim lib cycle s0 = Inr s'"
  shows "\<exists>s4 x k f.
           setup_system lib
             (s0\<lparr>triangulation := cycle_mesh sdim cycle (triangulation s0),
                  cout := cout s0 @ [Cycle cycle,
                     NumberOfActiveCells (n_active_cells (cycle_mesh sdim cycle (triangulation s0))),
                     TotalNumberOfCells (n_cells (cycle_mesh sdim cycle (triangulation s0)))]\<rparr>)
             = Inr s4
         \<and> s' = (assemble_system sdim lib s4)\<lparr>solution := x,
                    cout := cout s4 @ [CGIterations k], files := f\<rparr>"
proof -
  let ?s3 = "s0\<lparr>triangulation := cycle_mesh sdim cycle (triangulation s0),
                  cout := cout s0 @ [Cycle cycle,
                     NumberOfActiveCells (n_active_cells (cycle_mesh sdim cycle (triangulation s0))),
                     TotalNumberOfCells (n_cells (cycle_mesh sdim cycle (triangulation s0)))]\<rparr>"
  obtain s4 where s4: "setup_system lib ?s3 = Inr s4"
    using setup_system_total by blast
  have 1: "bind_error (solve lib (assemble_system sdim lib s4))
             (\<lambda>s5. Inr (output_results lib cycle s5)) = Inr s'"
    using assms unfolding run_cycle_unfold s4 by simp
  then obtain s5 where s5: "solve lib (assemble_system sdim lib s4) = Inr s5"
    and s': "s' = output_results lib cycle s5"
    by (cases "solve lib (assemble_system sdim lib s4)") simp_all
  from solve_frame [OF s5] obtain x k where
    5: "s5 = (assemble_system sdim lib s4)\<lparr>solution := x,
              cout := cout (assemble_system sdim lib s4) @ [CGIterations k]\<rparr>"
    by blast
  obtain f where 6: "output_results lib cycle s5 = s5\<lparr>files := f\<rparr>"
    using output_results_frame by blast
  have "s' = (assemble_system sdim lib s4)\<lparr>solution := x,
                    cout := cout s4 @ [CGIterations k], files := f\<rparr>"
    using 6 by (simp add: s' 5 assemble_system_keeps)
  with s4 show ?thesis by blast
qed


lemma run_cycle_result:
  assumes "run_cycle sdim lib cycle s0 = Inr s'"
  shows "triangulation s' = cycle_mesh sdim cycle (triangulation s0)"
    and "\<exists>k. cout s' = cout s0 @ [Cycle cycle,
                  NumberOfActiveCells (n_active_cells (triangulation s')),
                  TotalNumberOfCells (n_cells (triangulation s')),
                  NumberOfDegreesOfFreedom (n_dofs (distribute_dofs lib (triangulation s'))),
                  CGIterations k]"
    and "mg_matrices s' = \<lparr>minlevel = 0, objects =
                map (\<lambda>l. SparseMatrix_reinit
                             (level_sparsity lib (distribute_dofs lib (triangulation s')) l))
                  [0..<n_levels (triangulation s')]
                  @ replicate (level_slots (n_levels (triangulation s')) - n_levels (triangulation s'))
                      SparseMatrix_default\<rparr>"
proof -
  from run_cycle_Inr [OF assms] obtain s4 x k f where
    s4: "setup_system lib
             (s0\<lparr>triangulation := cycle_mesh sdim cycle (triangulation s0),
                  cout := cout s0 @ [Cycle cycle,
                     NumberOfActiveCells (n_active_cells (cycle_mesh sdim cycle (triangulation s0))),
                     TotalNumberOfCells (n_cells (cycle_mesh sdim cycle (triangulation s0)))]\<rparr>)
             = Inr s4"
    and s': "s' = (assemble_system sdim lib s4)\<lparr>solution := x,
                    cout := cout s4 @ [CGIterations k], files := f\<rparr>"
    by blast
  note f = setup_system_fields [OF s4] setup_system_cout [OF s4]
  show tri: "triangulation s' = cycle_mesh sdim cycle (triangulation s0)"
    by (simp add: s' assemble_system_keeps f(1))
  show "mg_matrices s' = \<lparr>minlevel = 0, objects =
                map (\<lambda>l. SparseMatrix_reinit
                             (level_sparsity lib (distribute_dofs lib (triangulation s')) l))
                  [0..<n_levels (triangulation s')]
                  @ replicate (level_slots (n_levels (triangulation s')) - n_levels (triangulation s'))
                      SparseMatrix_default\<rparr>"
    unfolding tri by (simp add: s' assemble_system_keeps f(6))
  have "cout s' = cout s0 @ [Cycle cycle,
                  NumberOfActiveCells (n_active_cells (triangulation s')),
                  TotalNumberOfCells (n_cells (triangulation s')),
                  NumberOfDegreesOfFreedom (n_dofs (distribute_dofs lib (triangulation s'))),
                  CGIterations k]"
    unfolding tri by (simp add: s' f(7))
  then show "\<exists>k. cout s' = cout s0 @ [Cycle cycle,
                  NumberOfActiveCells (n_active_cells (triangulation s')),
                  TotalNumberOfCells (n_cells (triangulation s')),
                  NumberOfDegreesOfFreedom (n_dofs (distribute_dofs lib (triangulation s'))),
                  CGIterations k]"
    by blast
qed

text \<open>
  Claim C1 fails on the code. \<^verbatim>\<open>run\<close> calls \<^verbatim>\<open>setup_system\<close>, \<^verbatim>\<open>assemble_system\<close>,
  \<^verbatim>\<open>solve\<close> and \<^verbatim>\<open>output_results\<close>; the level assembler \<^verbatim>\<open>assemble_multigrid\<close> is never
  called. So at the end of every cycle each per-level matrix is still the zero matrix
  that the setup step left.
\<close>

theorem run_cycle_level_matrices_zero:
  assumes "run_cycle sdim lib cycle s0 = Inr s'"
    and "level < n_levels (triangulation s')"
  shows "\<exists>M. MGLevelObject_get (mg_matrices s') level = Inr M \<and> sm_val M = (\<lambda>i j. 0)"
  using assms(2)
  by (simp add: run_cycle_result(3) [OF assms(1)]
        MGLevelObject_get_def MGLevelObject_in_range_def nth_append SparseMatrix_reinit_def)

section \<open>Cell counts under global refinement\<close>

lemma count_refined [simp]:
  "length (filter (\<lambda>c. c = Active) (map (\<lambda>c. Refined) cs)) = 0"
  by (induction cs) simp_all

lemma count_new [simp]:
  "length (filter (\<lambda>c. c = Active) (replicate n Active)) = n"
  by (induction n) simp_all

lemma refine_levels_active:
  "sum_list (map (\<lambda>cs. length (filter (\<lambda>c. c = Active) cs)) (refine_levels sdim new_cells ls)) =
     new_cells + children_per_cell sdim *
       sum_list (map (\<lambda>cs. length (filter (\<lambda>c. c = Active) cs)) ls)"
  by (induction ls arbitrary: new_cells) (simp_all add: algebra_simps)

lemma n_active_cells_refine_global:
  "n_active_cells (refine_global sdim 1 t) = children_per_cell sdim * n_active_cells t"
  by (simp add: refine_global_def refine_once_def n_active_cells_def refine_levels_active)

lemma n_active_cells_hyper_cube: "n_active_cells (hyper_cube sdim) = 1"
  by (simp add: hyper_cube_def n_active_cells_def)

lemma refine_global_Suc:
  "refine_global sdim 1 (refine_global sdim k t) = refine_global sdim (Suc k) t"
  by (simp add: refine_global_def)

lemma n_active_cells_refined_cube:
  "n_active_cells (refine_global sdim k (hyper_cube sdim)) = children_per_cell sdim ^ k"
proof (induction k)
  case 0
  then show ?case by (simp add: refine_global_def n_active_cells_hyper_cube)
next
  case (Suc k)
  have "n_active_cells (refine_global sdim (Suc k) (hyper_cube sdim)) =
        n_active_cells (refine_global sdim 1 (refine_global sdim k (hyper_cube sdim)))"
    by (simp only: refine_global_Suc)
  then show ?case
    by (simp only: n_active_cells_refine_global Suc power_Suc)
qed

text \<open>Every mesh that \<^verbatim>\<open>run\<close> works on has its coarsest level.\<close>

lemma refine_levels_nonempty:
  "ls \<noteq> [] \<Longrightarrow> refine_levels sdim new_cells ls \<noteq> []"
  by (cases ls) simp_all

lemma n_levels_refined_cube:
  "0 < n_levels (refine_global sdim k (hyper_cube sdim))"
proof (induction k)
  case 0
  then show ?case by (simp add: refine_global_def hyper_cube_def n_levels_def)
next
  case (Suc k)
  then have "levels (refine_global sdim k (hyper_cube sdim)) \<noteq> []"
    by (simp add: n_levels_def)
  then have "levels (refine_once sdim (refine_global sdim k (hyper_cube sdim))) \<noteq> []"
    by (simp add: refine_once_def refine_levels_nonempty)
  then show ?case
    by (simp add: refine_global_def n_levels_def)
qed

section \<open>The loop over the cycles\<close>

lemma reports_append [simp]:
  "cycles_reported (xs @ ys) = cycles_reported xs @ cycles_reported ys"
  "active_cell_reports (xs @ ys) = active_cell_reports xs @ active_cell_reports ys"
  by (simp_all add: cycles_reported_def active_cell_reports_def)

lemma reports_cycle [simp]:
  "cycles_reported [Cycle c, NumberOfActiveCells a, TotalNumberOfCells n,
     NumberOfDegreesOfFreedom d, CGIterations k] = [c]"
  "active_cell_reports [Cycle c, NumberOfActiveCells a, TotalNumberOfCells n,
     NumberOfDegreesOfFreedom d, CGIterations k] = [a]"
  by (simp_all add: cycles_reported_def active_cell_reports_def)

lemma run_cycles:
  assumes "for_each (run_cycle sdim lib) [0..<Suc n] s0 = Inr s'"
  shows "triangulation s' = refine_global sdim n (hyper_cube sdim)
       \<and> cycles_reported (cout s') = cycles_reported (cout s0) @ [0..<Suc n]
       \<and> active_cell_reports (cout s') =
           active_cell_reports (cout s0) @ map (\<lambda>c. children_per_cell sdim ^ c) [0..<Suc n]"
  using assms
proof (induction n arbitrary: s')
  case 0
  then have rc: "run_cycle sdim lib 0 s0 = Inr s'"
    by (cases "run_cycle sdim lib 0 s0") simp_all
  note r = run_cycle_result [OF rc]
  have tri: "triangulation s' = hyper_cube sdim"
    by (simp add: r(1) cycle_mesh_def)
  from r(2) obtain k where "cout s' = cout s0 @ [Cycle 0,
                  NumberOfActiveCells (n_active_cells (triangulation s')),
                  TotalNumberOfCells (n_cells (triangulation s')),
                  NumberOfDegreesOfFreedom (n_dofs (distribute_dofs lib (triangulation s'))),
                  CGIterations k]" by blast
  then show ?case
    by (simp add: tri refine_global_def n_active_cells_hyper_cube)
next
  case (Suc n)
  have split: "[0..<Suc (Suc n)] = [0..<Suc n] @ [Suc n]" by simp
  from Suc.prems obtain sn where sn: "for_each (run_cycle sdim lib) [0..<Suc n] s0 = Inr sn"
    and rc: "run_cycle sdim lib (Suc n) sn = Inr s'"
    unfolding split for_each_append
    by (cases "for_each (run_cycle sdim lib) [0..<Suc n] s0") simp_all
  note ih = Suc.IH [OF sn]
  note r = run_cycle_result [OF rc]
  have tri: "triangulation s' = refine_global sdim (Suc n) (hyper_cube sdim)"
    using ih by (simp add: r(1) cycle_mesh_def refine_global_Suc [unfolded One_nat_def])
  from r(2) obtain k where out: "cout s' = cout sn @ [Cycle (Suc n),
                  NumberOfActiveCells (n_active_cells (triangulation s')),
                  TotalNumberOfCells (n_cells (triangulation s')),
                  NumberOfDegreesOfFreedom (n_dofs (distribute_dofs lib (triangulation s'))),
                  CGIterations k]" by blast
  have "cycles_reported (cout s') = cycles_reported (cout s0) @ [0..<Suc (Suc n)]"
    unfolding out using ih by simp
  moreover have "active_cell_reports (cout s') =
           active_cell_reports (cout s0) @ map (\<lambda>c. children_per_cell sdim ^ c) [0..<Suc (Suc n)]"
    unfolding out using ih by (simp add: tri n_active_cells_refined_cube)
  ultimately show ?case using tri by blast
qed

text \<open>
  Claim C8. The program entry takes no arguments and runs exactly 6 refinement cycles:
  cycle 0 generates the single base hypercube cell and each later cycle refines the
  mesh globally once. On normal completion it returns exit code 0, and in every cycle
  \<open>c\<close> the active-cell count is \<open>4^c\<close> (four children per split, one base cell).
\<close>

theorem main_six_cycles:
  assumes "main lib = Inr (rc, s)"
  shows "rc = 0
       \<and> cycles_reported (cout s) = [0, 1, 2, 3, 4, 5]
       \<and> active_cell_reports (cout s) = [1, 4, 16, 64, 256, 1024]
       \<and> triangulation s = refine_global 2 5 (hyper_cube 2)
       \<and> n_active_cells (triangulation s) = 4 ^ 5"
proof -
  from assms have rc: "rc = 0" and run: "run 2 lib LaplaceProblem_init = Inr s"
    by (cases "run 2 lib LaplaceProblem_init"; simp add: main_def)+
  have six: "[0..<6] = [0..<Suc 5]" by simp
  from run have "for_each (run_cycle 2 lib) [0..<Suc 5] LaplaceProblem_init = Inr s"
    unfolding run_def six .
  from run_cycles [OF this]
  have tri: "triangulation s = refine_global 2 5 (hyper_cube 2)"
    and cyc: "cycles_reported (cout s) = cycles_reported (cout LaplaceProblem_init) @ [0..<Suc 5]"
    and act: "active_cell_reports (cout s) =
           active_cell_reports (cout LaplaceProblem_init) @ map (\<lambda>c. children_per_cell 2 ^ c) [0..<Suc 5]"
    by blast+
  have out0: "cout LaplaceProblem_init = []"
    by (simp add: LaplaceProblem_init_def)
  have "cycles_reported (cout s) = [0, 1, 2, 3, 4, 5]"
    unfolding cyc out0 by (simp add: cycles_reported_def upt_rec)
  moreover have "active_cell_reports (cout s) = [1, 4, 16, 64, 256, 1024]"
    unfolding act out0 by (simp add: active_cell_reports_def children_per_cell_def upt_rec)
  moreover have "n_active_cells (triangulation s) = 4 ^ 5"
    unfolding tri n_active_cells_refined_cube by (simp add: children_per_cell_def)
  ultimately show ?thesis using rc tri by blast
qed

section \<open>solve\<close>

lemma cg_loop_stops:
  assumes "cg_residual lib ((cg_step lib A P ^^ j) k) < tolerance control"
    and "\<forall>i<j. \<not> cg_residual lib ((cg_step lib A P ^^ i) k) < tolerance control"
    and "j \<le> remaining"
  shows "cg_loop lib control A P step remaining k =
           Inr (cg_iterate lib ((cg_step lib A P ^^ j) k), step + j)"
  using assms
proof (induction remaining arbitrary: step k j)
  case 0
  then show ?case by simp
next
  case (Suc remaining)
  show ?case
  proof (cases j)
    case 0
    with Suc.prems show ?thesis by simp
  next
    case (Suc j')
    have first: "\<not> cg_residual lib k < tolerance control"
      using Suc.prems(2) Suc by force
    have 1: "cg_residual lib ((cg_step lib A P ^^ j') (cg_step lib A P k)) < tolerance control"
      using Suc.prems(1) Suc by (simp add: funpow_swap1)
    have 2: "\<forall>i<j'. \<not> cg_residual lib ((cg_step lib A P ^^ i) (cg_step lib A P k)) < tolerance control"
    proof (intro allI impI)
      fix i assume "i < j'"
      then have "Suc i < j" using Suc by simp
      with Suc.prems(2) have "\<not> cg_residual lib ((cg_step lib A P ^^ Suc i) k) < tolerance control"
        by blast
      then show "\<not> cg_residual lib ((cg_step lib A P ^^ i) (cg_step lib A P k)) < tolerance control"
        by (simp add: funpow_swap1)
    qed
    have 3: "j' \<le> remaining" using Suc.prems(3) Suc by simp
    from Suc.IH [OF 1 2 3, of "Suc step"] first show ?thesis
      by (simp add: Suc funpow_swap1)
  qed
qed

lemma cg_loop_fails:
  assumes "\<forall>j\<le>remaining. \<not> cg_residual lib ((cg_step lib A P ^^ j) k) < tolerance control"
  shows "cg_loop lib control A P step remaining k =
           Inl (NoConvergence (step + remaining)
                  (cg_residual lib ((cg_step lib A P ^^ remaining) k)))"
  using assms
proof (induction remaining arbitrary: step k)
  case 0
  then show ?case by simp
next
  case (Suc remaining)
  have first: "\<not> cg_residual lib k < tolerance control"
    using Suc.prems by force
  have "\<forall>j\<le>remaining. \<not> cg_residual lib ((cg_step lib A P ^^ j) (cg_step lib A P k)) < tolerance control"
  proof (intro allI impI)
    fix j assume "j \<le> remaining"
    then have "Suc j \<le> Suc remaining" by simp
    with Suc.prems have "\<not> cg_residual lib ((cg_step lib A P ^^ Suc j) k) < tolerance control"
      by blast
    then show "\<not> cg_residual lib ((cg_step lib A P ^^ j) (cg_step lib A P k)) < tolerance control"
      by (simp add: funpow_swap1)
  qed
  from Suc.IH [OF this, of "Suc step"] first show ?case
    by (simp add: funpow_swap1)
qed

lemma solve_unfold:
  "solve lib s =
     bind_error
       (cg_loop lib \<lparr>max_steps = 1000, tolerance = 1 / 10 ^ 12\<rparr> (system_matrix s)
          (precondition_SSOR lib (system_matrix s) (12 / 10)) 0 1000
          (cg_states lib (system_matrix s) (precondition_SSOR lib (system_matrix s) (12 / 10))
             (solution s) (system_rhs s) 0))
       (\<lambda>(x, last_step). Inr (s\<lparr>solution := x, cout := cout s @ [CGIterations last_step]\<rparr>))"
  by (simp add: solve_def Let_def SolverCG_solve_def PreconditionSSOR_vmult_def
        PreconditionSSOR_initialize_def cg_states_def)

lemma cg_loop_from_start:
  fixes lib :: "'k library" and A P x b
  defines "K \<equiv> cg_states lib A P x b"
  shows "\<exists>j\<le>n. cg_residual lib (K j) < tolerance control \<Longrightarrow>
           \<exists>j\<le>n. cg_residual lib (K j) < tolerance control
              \<and> (\<forall>i<j. \<not> cg_residual lib (K i) < tolerance control)
              \<and> cg_loop lib control A P 0 n (K 0) = Inr (cg_iterate lib (K j), j)"
    and "\<not> (\<exists>j\<le>n. cg_residual lib (K j) < tolerance control) \<Longrightarrow>
           cg_loop lib control A P 0 n (K 0) = Inl (NoConvergence n (cg_residual lib (K n)))"
proof -
  have K: "(cg_step lib A P ^^ j) (K 0) = K j" for j
    by (simp add: K_def cg_states_def)
  {
    assume "\<exists>j\<le>n. cg_residual lib (K j) < tolerance control"
    then obtain j0 where j0: "j0 \<le> n" "cg_residual lib (K j0) < tolerance control"
      by blast
    define j where "j = (LEAST j. cg_residual lib (K j) < tolerance control)"
    have hit: "cg_residual lib (K j) < tolerance control"
      unfolding j_def using j0(2) by (rule LeastI)
    have le: "j \<le> n"
      using Least_le [of "\<lambda>j. cg_residual lib (K j) < tolerance control" j0] j0
      unfolding j_def by simp
    have before: "\<forall>i<j. \<not> cg_residual lib (K i) < tolerance control"
      unfolding j_def using not_less_Least by blast
    have "cg_loop lib control A P 0 n (K 0) =
            Inr (cg_iterate lib ((cg_step lib A P ^^ j) (K 0)), 0 + j)"
      using hit before le by (intro cg_loop_stops) (simp_all only: K)
    then have "cg_loop lib control A P 0 n (K 0) = Inr (cg_iterate lib (K j), j)"
      by (simp only: K add_0)
    with hit before le
    show "\<exists>j\<le>n. cg_residual lib (K j) < tolerance control
              \<and> (\<forall>i<j. \<not> cg_residual lib (K i) < tolerance control)
              \<and> cg_loop lib control A P 0 n (K 0) = Inr (cg_iterate lib (K j), j)"
      by blast
  }
  {
    assume "\<not> (\<exists>j\<le>n. cg_residual lib (K j) < tolerance control)"
    then have "\<forall>j\<le>n. \<not> cg_residual lib ((cg_step lib A P ^^ j) (K 0)) < tolerance control"
      by (simp only: K) blast
    from cg_loop_fails [OF this, of 0]
    show "cg_loop lib control A P 0 n (K 0) = Inl (NoConvergence n (cg_residual lib (K n)))"
      by (simp only: K add_0)
  }
qed

text \<open>
  Claim C3. The linear solver runs the preconditioned conjugate gradient iteration
  with the SSOR preconditioner built from the global matrix itself and relaxation
  factor 1.2. It stops at the first iterate, among the start state and at most 1000
  steps, whose residual norm is below \<open>10\<^sup>-\<^sup>1\<^sup>2\<close>, and returns that iterate and the
  number of steps. If no such iterate exists the caller gets the error
  \<open>NoConvergence\<close>, not a result.
\<close>

theorem solve_stopping_rule:
  "(let K = cg_states lib (system_matrix s)
              (precondition_SSOR lib (system_matrix s) (12 / 10)) (solution s) (system_rhs s)
    in if \<exists>j\<le>1000. cg_residual lib (K j) < 1 / 10 ^ 12
       then \<exists>j\<le>1000. cg_residual lib (K j) < 1 / 10 ^ 12
              \<and> (\<forall>i<j. \<not> cg_residual lib (K i) < 1 / 10 ^ 12)
              \<and> solve lib s =
                  Inr (s\<lparr>solution := cg_iterate lib (K j), cout := cout s @ [CGIterations j]\<rparr>)
       else solve lib s = Inl (NoConvergence 1000 (cg_residual lib (K 1000))))"
proof -
  define A where "A = system_matrix s"
  define P where "P = precondition_SSOR lib (system_matrix s) (12 / 10)"
  define control where "control = \<lparr>max_steps = 1000, tolerance = 1 / 10 ^ 12\<rparr>"
  define K where "K = cg_states lib A P (solution s) (system_rhs s)"
  have tol: "tolerance control = 1 / 10 ^ 12"
    by (simp add: control_def)
  have unfold: "solve lib s =
     bind_error (cg_loop lib control A P 0 1000 (K 0))
       (\<lambda>(x, last_step). Inr (s\<lparr>solution := x, cout := cout s @ [CGIterations last_step]\<rparr>))"
    unfolding A_def P_def control_def K_def by (rule solve_unfold)
  have goal: "if \<exists>j\<le>1000. cg_residual lib (K j) < tolerance control
       then \<exists>j\<le>1000. cg_residual lib (K j) < tolerance control
              \<and> (\<forall>i<j. \<not> cg_residual lib (K i) < tolerance control)
              \<and> solve lib s =
                  Inr (s\<lparr>solution := cg_iterate lib (K j), cout := cout s @ [CGIterations j]\<rparr>)
       else solve lib s = Inl (NoConvergence 1000 (cg_residual lib (K 1000)))"
  proof (cases "\<exists>j\<le>1000. cg_residual lib (K j) < tolerance control")
    case True
    from cg_loop_from_start(1) [of 1000 lib A P "solution s" "system_rhs s" control,
        folded K_def, OF True]
    obtain j where j: "j \<le> 1000" "cg_residual lib (K j) < tolerance control"
      "\<forall>i<j. \<not> cg_residual lib (K i) < tolerance control"
      "cg_loop lib control A P 0 1000 (K 0) = Inr (cg_iterate lib (K j), j)"
      by blast
    have "solve lib s =
        Inr (s\<lparr>solution := cg_iterate lib (K j), cout := cout s @ [CGIterations j]\<rparr>)"
      unfolding unfold j(4) by simp
    with j(1,2,3) have "\<exists>j\<le>1000. cg_residual lib (K j) < tolerance control
              \<and> (\<forall>i<j. \<not> cg_residual lib (K i) < tolerance control)
              \<and> solve lib s =
                  Inr (s\<lparr>solution := cg_iterate lib (K j), cout := cout s @ [CGIterations j]\<rparr>)"
      by blast
    with True show ?thesis by (simp only: if_True)
  next
    case False
    from cg_loop_from_start(2) [of 1000 lib A P "solution s" "system_rhs s" control,
        folded K_def, OF False]
    have "solve lib s = Inl (NoConvergence 1000 (cg_residual lib (K 1000)))"
      unfolding unfold by simp
    with False show ?thesis by (simp only: if_False)
  qed
  show ?thesis
    using goal unfolding Let_def tol K_def A_def P_def .
qed

section \<open>Single precision of the level matrices\<close>








section \<open>The program on the interval\<close>

lemma interval_library_simps [simp]:
  "fe_dofs_per_cell interval_library = 2"
  "n_quadrature_points interval_library = 2"
  "distribute_dofs interval_library = interval_dofs"
  "fe_values_reinit interval_library = interval_fe_values"
  "boundary_dofs interval_library = interval_boundary"
  by (simp_all add: interval_library_def)

lemma upt_2: "[0..<2] = [0, Suc 0]"
  by (simp add: upt_rec)

lemma refined_mesh_counts:
  "n_levels \<lparr>levels = [[Refined], [Active, Active]]\<rparr> = 2"
  "n_active_cells \<lparr>levels = [[Refined], [Active, Active]]\<rparr> = 2"
  "active_cells \<lparr>levels = [[Refined], [Active, Active]]\<rparr> = [(1, 0), (1, 1)]"
  by (simp_all add: n_levels_def n_active_cells_def active_cells_def all_cells_def
        cells_on_level_def is_active_def upt_rec)

lemma interval_stiffness:
  "quadrature_stiffness (Suc 0) 2 (interval_fe_values t c) i j =
     (if (i = 0) = (j = 0) then 2 ^ fst c else - (2 ^ fst c))"
  by (simp add: quadrature_stiffness_def tensor_dot_def interval_fe_values_def upt_2
        power2_eq_square)

lemma setup_refined_problem:
  "setup_system interval_library refined_problem = Inr refined_setup"
  by (simp add: setup_system_result refined_problem_def refined_setup_def LaplaceProblem_init_def
        refined_mesh_counts level_slots_pos upt_2 interval_dofs_def SparseMatrix_reinit_def
        Vector_reinit_def global_sparsity_dims level_sparsity_dims)

lemma refined_setup_fields [simp]:
  "triangulation refined_setup = \<lparr>levels = [[Refined], [Active, Active]]\<rparr>"
  "mg_dof_handler refined_setup = interval_dofs \<lparr>levels = [[Refined], [Active, Active]]\<rparr>"
  "sm_val (system_matrix refined_setup) = (\<lambda>i j. 0)"
  by (simp_all add: refined_setup_def)

lemma interior_entry_after_boundary:
  assumes "mg_dof_handler s = interval_dofs \<lparr>levels = [[Refined], [Active, Active]]\<rparr>"
  shows "sm_val (system_matrix (apply_zero_boundary_values interval_library s)) (Suc 0) (Suc 0) =
         sm_val (system_matrix s) (Suc 0) (Suc 0)"
  by (simp add: apply_zero_boundary_values_def Let_def interpolate_boundary_values_def
        interval_boundary_def assms interval_dofs_def refined_mesh_counts
        apply_boundary_values_def eliminate_dof_def)

lemma interior_entry_cells:
  assumes "triangulation s = \<lparr>levels = [[Refined], [Active, Active]]\<rparr>"
    and "mg_dof_handler s = interval_dofs \<lparr>levels = [[Refined], [Active, Active]]\<rparr>"
  shows "sm_val (system_matrix (assemble_system_cells (Suc 0) interval_library s)) (Suc 0) (Suc 0) =
         sm_val (system_matrix s) (Suc 0) (Suc 0) + 4"
  by (simp add: assemble_system_cells_closed_form assms refined_mesh_counts upt_2
        interval_stiffness interval_dofs_def)

lemma interior_entry_assemble:
  assumes "triangulation s = \<lparr>levels = [[Refined], [Active, Active]]\<rparr>"
    and "mg_dof_handler s = interval_dofs \<lparr>levels = [[Refined], [Active, Active]]\<rparr>"
  shows "sm_val (system_matrix (assemble_system (Suc 0) interval_library s)) (Suc 0) (Suc 0) =
         sm_val (system_matrix s) (Suc 0) (Suc 0) + 4"
proof -
  have "mg_dof_handler (assemble_system_cells (Suc 0) interval_library s) =
        interval_dofs \<lparr>levels = [[Refined], [Active, Active]]\<rparr>"
    using assemble_system_cells_frame [of "Suc 0" interval_library s] assms(2)
    by (metis LaplaceProblem.select_convs(2) LaplaceProblem.surjective LaplaceProblem.update_convs(4,8))
  then show ?thesis
    by (simp add: assemble_system_def interior_entry_after_boundary interior_entry_cells assms)
qed

text \<open>
  Claim C6 as stated fails: on the interval refined once, after Setup, the interior
  diagonal entry of the global matrix is 4 after one run of the global assembler and
  8 after two runs with no Setup in between.
\<close>

theorem assemble_twice_accumulates:
  "sm_val (system_matrix (assemble_system 1 interval_library refined_setup)) 1 1 = 4
   \<and> sm_val (system_matrix (assemble_system 1 interval_library
               (assemble_system 1 interval_library refined_setup))) 1 1 = 8
   \<and> system_matrix (assemble_system 1 interval_library
         (assemble_system 1 interval_library refined_setup))
       \<noteq> system_matrix (assemble_system 1 interval_library refined_setup)"
proof -
  have once: "sm_val (system_matrix (assemble_system 1 interval_library refined_setup)) 1 1 = 4"
    by (simp add: interior_entry_assemble)
  have twice: "sm_val (system_matrix (assemble_system 1 interval_library
               (assemble_system 1 interval_library refined_setup))) 1 1 = 8"
    by (simp add: interior_entry_assemble assemble_system_keeps once)
  from once twice show ?thesis
    by (metis numeral_eq_iff semiring_norm(88) numeral_Bit0 add_cancel_right_left zero_neq_numeral)
qed

lemma refined_all_cells:
  "all_cells \<lparr>levels = [[Refined], [Active, Active]]\<rparr> = [(0, 0), (1, 0), (1, 1)]"
  by (simp add: all_cells_def cells_on_level_def n_levels_def upt_rec)

lemma assemble_multigrid_refined_ok:
  "\<exists>s'. assemble_multigrid_cells (Suc 0) interval_library refined_setup = Inr s'"
  by (simp add: assemble_multigrid_cells_def refined_all_cells assemble_multigrid_cell_def
        Let_def upt_2 MGLevelObject_modify_def MGLevelObject_get_def MGLevelObject_in_range_def
        refined_setup_def)

section \<open>Runs that complete\<close>

lemma cg_loop_converged:
  assumes "cg_residual lib k < tolerance control"
  shows "cg_loop lib control A P step remaining k = Inr (cg_iterate lib k, step)"
  using assms by (cases remaining) simp_all

lemma solve_converged:
  assumes "cg_residual lib
             (cg_states lib (system_matrix s) (precondition_SSOR lib (system_matrix s) (12 / 10))
                (solution s) (system_rhs s) 0) < 1 / 10 ^ 12"
  shows "\<exists>x. solve lib s = Inr (s\<lparr>solution := x, cout := cout s @ [CGIterations 0]\<rparr>)"
proof -
  have "cg_loop lib \<lparr>max_steps = 1000, tolerance = 1 / 10 ^ 12\<rparr> (system_matrix s)
          (precondition_SSOR lib (system_matrix s) (12 / 10)) 0 1000
          (cg_states lib (system_matrix s) (precondition_SSOR lib (system_matrix s) (12 / 10))
             (solution s) (system_rhs s) 0) =
        Inr (cg_iterate lib
          (cg_states lib (system_matrix s) (precondition_SSOR lib (system_matrix s) (12 / 10))
             (solution s) (system_rhs s) 0), 0)"
    using assms by (intro cg_loop_converged) simp
  then have "solve lib s = Inr (s\<lparr>solution := cg_iterate lib
          (cg_states lib (system_matrix s) (precondition_SSOR lib (system_matrix s) (12 / 10))
             (solution s) (system_rhs s) 0), cout := cout s @ [CGIterations 0]\<rparr>)"
    unfolding solve_unfold by simp
  then show ?thesis by blast
qed

lemma run_cycle_total:
  assumes "\<And>k. cg_residual lib k < 1 / 10 ^ 12"
  shows "\<exists>s'. run_cycle sdim lib cycle s = Inr s'"
proof -
  obtain s4 where s4: "setup_system lib
          (s\<lparr>triangulation := cycle_mesh sdim cycle (triangulation s),
               cout := cout s @ [Cycle cycle,
                  NumberOfActiveCells (n_active_cells (cycle_mesh sdim cycle (triangulation s))),
                  TotalNumberOfCells (n_cells (cycle_mesh sdim cycle (triangulation s)))]\<rparr>) = Inr s4"
    using setup_system_total by blast
  obtain x where "solve lib (assemble_system sdim lib s4) =
      Inr ((assemble_system sdim lib s4)\<lparr>solution := x,
             cout := cout (assemble_system sdim lib s4) @ [CGIterations 0]\<rparr>)"
    using solve_converged [OF assms] by blast
  then show ?thesis
    unfolding run_cycle_unfold s4 by simp
qed

lemma for_each_total:
  assumes "\<And>x s. \<exists>s'. body x s = Inr s'"
  shows "\<exists>s'. for_each body xs s = Inr s'"
proof (induction xs arbitrary: s)
  case Nil
  show ?case by simp
next
  case (Cons x xs)
  obtain a where "body x s = Inr a" using assms by blast
  with Cons.IH [of a] show ?case by simp
qed

lemma main_total:
  assumes "\<And>k. cg_residual lib k < 1 / 10 ^ 12"
  shows "\<exists>s. main lib = Inr (0, s)"
proof -
  obtain s where "run 2 lib LaplaceProblem_init = Inr s"
    unfolding run_def using for_each_total [of "run_cycle 2 lib", OF run_cycle_total [OF assms]]
    by blast
  then show ?thesis by (simp add: main_def)
qed

lemma constant_residual [simp]:
  "cg_residual (constant_residual_library \<rho>) k = \<rho>"
  by (simp add: constant_residual_library_def)

section \<open>Instances\<close>

theorem main_six_cycles_witness:
  "\<exists>s. main (constant_residual_library 0) = Inr (0, s)
       \<and> cycles_reported (cout s) = [0, 1, 2, 3, 4, 5]
       \<and> active_cell_reports (cout s) = [1, 4, 16, 64, 256, 1024]
       \<and> n_active_cells (triangulation s) = 4 ^ 5"
proof -
  obtain s where ok: "main (constant_residual_library 0) = Inr (0, s)"
    using main_total [of "constant_residual_library 0"] by auto
  from main_six_cycles [OF ok] ok show ?thesis by blast
qed

theorem assembled_matrix_symmetric_witness:
  "setup_system interval_library refined_problem = Inr refined_setup
   \<and> sm_val (system_matrix (assemble_system_cells 1 interval_library refined_setup)) 0 1 =
     sm_val (system_matrix (assemble_system_cells 1 interval_library refined_setup)) 1 0"
  using assembled_matrix_symmetric [OF setup_refined_problem, of 1 0 1] setup_refined_problem
  by simp

theorem setup_assemble_repeatable_witness:
  "\<exists>s2. setup_system interval_library refined_problem = Inr refined_setup
      \<and> setup_system interval_library (assemble_system 1 interval_library refined_setup) = Inr s2
      \<and> system_matrix (assemble_system 1 interval_library s2) =
          system_matrix (assemble_system 1 interval_library refined_setup)
      \<and> system_rhs (assemble_system 1 interval_library s2) =
          system_rhs (assemble_system 1 interval_library refined_setup)"
proof -
  obtain s2 where s2: "setup_system interval_library
      (assemble_system 1 interval_library refined_setup) = Inr s2"
    using setup_system_total by blast
  from setup_assemble_repeatable [OF setup_refined_problem s2] setup_refined_problem s2
  show ?thesis by blast
qed

theorem setup_system_level_matrices_witness:
  "0 < n_levels (triangulation refined_problem)
   \<and> setup_system interval_library refined_problem = Inr refined_setup
   \<and> length (objects (mg_matrices refined_setup)) = 2
   \<and> MGLevelObject_get (mg_matrices refined_setup) 1 =
       Inr \<lparr>sm_rows = 3, sm_cols = 3, sm_val = (\<lambda>i j. 0)\<rparr>"
proof -
  have pos: "0 < n_levels (triangulation refined_problem)"
    by (simp add: refined_problem_def LaplaceProblem_init_def n_levels_def)
  from setup_system_level_matrices [OF pos, of interval_library]
  have "length (objects (mg_matrices refined_setup)) = n_levels (triangulation refined_setup)"
    by (simp add: setup_refined_problem)
  then have "length (objects (mg_matrices refined_setup)) = 2"
    by (simp add: refined_mesh_counts)
  moreover have "MGLevelObject_get (mg_matrices refined_setup) 1 =
       Inr \<lparr>sm_rows = 3, sm_cols = 3, sm_val = (\<lambda>i j. 0)\<rparr>"
    by (simp add: refined_setup_def MGLevelObject_get_def MGLevelObject_in_range_def)
  ultimately show ?thesis
    using pos setup_refined_problem by blast
qed

section \<open>Sizes and the solution vector under assembly\<close>

lemma fold_eliminate_dof_keeps:
  assumes "fold eliminate_dof bv (A, x, b) = (A', x', b')"
  shows "x' = x" and "vec_size b' = vec_size b"
    and "sm_rows A' = sm_rows A" and "sm_cols A' = sm_cols A"
proof -
  have "x' = x \<and> vec_size b' = vec_size b \<and> sm_rows A' = sm_rows A \<and> sm_cols A' = sm_cols A"
    using assms
  proof (induction bv arbitrary: A x b)
    case Nil
    then show ?case by simp
  next
    case (Cons dv bv)
    obtain A1 x1 b1 where 1: "eliminate_dof dv (A, x, b) = (A1, x1, b1)"
      by (cases "eliminate_dof dv (A, x, b)") auto
    then have "x1 = x \<and> vec_size b1 = vec_size b \<and> sm_rows A1 = sm_rows A \<and> sm_cols A1 = sm_cols A"
      by (cases dv) (auto simp: eliminate_dof_def)
    moreover from Cons.prems 1 have "fold eliminate_dof bv (A1, x1, b1) = (A', x', b')"
      by simp
    from Cons.IH [OF this]
    have "x' = x1 \<and> vec_size b' = vec_size b1 \<and> sm_rows A' = sm_rows A1 \<and> sm_cols A' = sm_cols A1" .
    ultimately show ?case by simp
  qed
  then show "x' = x" and "vec_size b' = vec_size b"
    and "sm_rows A' = sm_rows A" and "sm_cols A' = sm_cols A"
    by simp_all
qed

lemma apply_zero_boundary_values_keeps:
  "solution (apply_zero_boundary_values lib s) = solution s"
  "vec_size (system_rhs (apply_zero_boundary_values lib s)) = vec_size (system_rhs s)"
proof -
  obtain A x b where 1: "apply_boundary_values
        (interpolate_boundary_values lib (mg_dof_handler s) 0 ZeroFunction)
        (system_matrix s, solution s, system_rhs s) = (A, x, b)"
    by (cases "apply_boundary_values
        (interpolate_boundary_values lib (mg_dof_handler s) 0 ZeroFunction)
        (system_matrix s, solution s, system_rhs s)") auto
  note k = fold_eliminate_dof_keeps [OF 1 [unfolded apply_boundary_values_def]]
  show "solution (apply_zero_boundary_values lib s) = solution s"
    "vec_size (system_rhs (apply_zero_boundary_values lib s)) = vec_size (system_rhs s)"
    by (simp_all add: apply_zero_boundary_values_def Let_def 1 k)
qed

lemma fold_Vector_add_size:
  "vec_size (fold (\<lambda>i b'. Vector_add b' (g i) (h i)) xs b) = vec_size b"
  by (induction xs arbitrary: b) (simp_all add: Vector_add_def)

lemma assemble_system_cell_rhs_size:
  "vec_size (system_rhs (assemble_system_cell sdim lib cell s)) = vec_size (system_rhs s)"
  by (simp add: assemble_system_cell_def Let_def integrate_system_cell_split
        scatter_system_cell_split fold_Vector_add_size del: upt.simps)

lemma assemble_system_cells_keeps:
  "vec_size (system_rhs (assemble_system_cells sdim lib s)) = vec_size (system_rhs s)"
  "solution (assemble_system_cells sdim lib s) = solution s"
  "mg_dof_handler (assemble_system_cells sdim lib s) = mg_dof_handler s"
proof -
  have "vec_size (system_rhs (fold (assemble_system_cell sdim lib) cs s)) = vec_size (system_rhs s)" for cs
    by (induction cs arbitrary: s) (simp_all add: assemble_system_cell_rhs_size)
  then show "vec_size (system_rhs (assemble_system_cells sdim lib s)) = vec_size (system_rhs s)"
    by (simp add: assemble_system_cells_def)
  obtain A b where "assemble_system_cells sdim lib s = s\<lparr>system_matrix := A, system_rhs := b\<rparr>"
    unfolding assemble_system_cells_def using fold_assemble_system_cell_frame by blast
  then show "solution (assemble_system_cells sdim lib s) = solution s"
    "mg_dof_handler (assemble_system_cells sdim lib s) = mg_dof_handler s"
    by simp_all
qed

lemma assemble_system_solution:
  "solution (assemble_system sdim lib s) = solution s"
  "vec_size (system_rhs (assemble_system sdim lib s)) = vec_size (system_rhs s)"
  by (simp_all add: assemble_system_def apply_zero_boundary_values_keeps assemble_system_cells_keeps)

section \<open>Cycle 0 on the interval\<close>

lemma base_mesh_counts:
  "n_levels (hyper_cube sdim) = 1"
  "n_active_cells (hyper_cube sdim) = 1"
  by (simp_all add: hyper_cube_def n_levels_def n_active_cells_def)

lemma base_rhs_after_boundary:
  assumes "n_dofs (mg_dof_handler s) = 2"
  shows "vec_val (system_rhs (apply_zero_boundary_values interval_library s)) 0 = 0"
    and "vec_val (system_rhs (apply_zero_boundary_values interval_library s)) (Suc 0) = 0"
  by (simp_all add: apply_zero_boundary_values_def Let_def interpolate_boundary_values_def
        interval_boundary_def assms apply_boundary_values_def eliminate_dof_def ZeroFunction_def)

lemma interval_kernel_simps [simp]:
  "cg_start interval_library = pcg_start"
  "cg_residual interval_library = (\<lambda>k. \<Sum>i\<leftarrow>[0..<vec_size (pcg_r k)]. \<bar>vec_val (pcg_r k) i\<bar>)"
  by (simp_all add: interval_library_def)

lemma run_cycle_0_interval:
  "\<exists>s'. run_cycle (Suc 0) interval_library 0 LaplaceProblem_init = Inr s'"
proof -
  let ?s3 = "LaplaceProblem_init\<lparr>triangulation :=
               cycle_mesh (Suc 0) 0 (triangulation LaplaceProblem_init),
               cout := cout LaplaceProblem_init @ [Cycle 0,
                  NumberOfActiveCells (n_active_cells
                    (cycle_mesh (Suc 0) 0 (triangulation LaplaceProblem_init))),
                  TotalNumberOfCells (n_cells
                    (cycle_mesh (Suc 0) 0 (triangulation LaplaceProblem_init)))]\<rparr>"
  obtain s4 where s4: "setup_system interval_library ?s3 = Inr s4"
    using setup_system_total by blast
  note f = setup_system_fields [OF s4]
  let ?s5 = "assemble_system (Suc 0) interval_library s4"
  have dofs: "n_dofs (mg_dof_handler s4) = 2"
    by (simp add: f(2) cycle_mesh_def interval_dofs_def base_mesh_counts)
  have x: "vec_val (solution ?s5) = (\<lambda>i. 0)"
    by (simp add: assemble_system_solution f(4) Vector_reinit_def)
  have size: "vec_size (system_rhs ?s5) = 2"
    using dofs by (simp add: assemble_system_solution f(5) f(2) Vector_reinit_def)
  have b: "vec_val (system_rhs ?s5) 0 = 0" "vec_val (system_rhs ?s5) (Suc 0) = 0"
    unfolding assemble_system_def
    by (rule base_rhs_after_boundary, simp add: assemble_system_cells_keeps dofs)+
  have "cg_residual interval_library
          (cg_states interval_library (system_matrix ?s5)
             (precondition_SSOR interval_library (system_matrix ?s5) (12 / 10))
             (solution ?s5) (system_rhs ?s5) 0) = 0"
    by (simp add: cg_states_def pcg_start_def Let_def vec_axpy_def
          vmult_def size x b upt_2)
  then have "cg_residual interval_library
          (cg_states interval_library (system_matrix ?s5)
             (precondition_SSOR interval_library (system_matrix ?s5) (12 / 10))
             (solution ?s5) (system_rhs ?s5) 0) < 1 / 10 ^ 12"
    by simp
  from solve_converged [OF this] obtain xs where
    "solve interval_library ?s5 = Inr (?s5\<lparr>solution := xs, cout := cout ?s5 @ [CGIterations 0]\<rparr>)"
    by blast
  then show ?thesis
    unfolding run_cycle_unfold s4 by simp
qed

theorem run_cycle_level_matrices_zero_witness:
  "\<exists>s'. run_cycle 1 interval_library 0 LaplaceProblem_init = Inr s'
       \<and> 0 < n_levels (triangulation s')
       \<and> (\<exists>M. MGLevelObject_get (mg_matrices s') 0 = Inr M \<and> sm_val M = (\<lambda>i j. 0))"
proof -
  obtain s' where ok: "run_cycle 1 interval_library 0 LaplaceProblem_init = Inr s'"
    using run_cycle_0_interval by auto
  have pos: "0 < n_levels (triangulation s')"
    by (simp add: run_cycle_result(1) [OF ok] cycle_mesh_def base_mesh_counts)
  from run_cycle_level_matrices_zero [OF ok pos] ok pos show ?thesis by blast
qed

section \<open>The level assembler on the interval refined once\<close>

lemma level_cells_value:
  "map_sum id (\<lambda>s. (minlevel (mg_matrices s), length (objects (mg_matrices s)),
                      sm_val (objects (mg_matrices s) ! Suc 0) (Suc 0) (Suc 0)))
     (assemble_multigrid_cells (Suc 0) interval_library refined_setup) = Inr (0, 2, Finite 4)"
  by (simp add: assemble_multigrid_cells_def refined_all_cells assemble_multigrid_cell_def
        Let_def upt_2 MGLevelObject_modify_def MGLevelObject_get_def MGLevelObject_in_range_def
        refined_setup_def integrate_multigrid_cell_apply interval_stiffness SparseMatrix_add_def
        interval_dofs_def plus_float32_def zero_float32_def float_round_numeral)

text \<open>
  Run after the setup step, the level assembler fills the level matrices: the
  interior diagonal entry of the finest level's matrix becomes the \<^verbatim>\<open>float\<close> 4.
\<close>

lemma level_assembler_fills_level_matrix:
  "\<exists>s' M. assemble_multigrid 1 interval_library refined_setup = Inr s'
         \<and> MGLevelObject_get (mg_matrices s') 1 = Inr M \<and> sm_val M 1 1 = Finite 4"
proof -
  obtain s1 where s1: "assemble_multigrid_cells (Suc 0) interval_library refined_setup = Inr s1"
    using assemble_multigrid_refined_ok by blast
  with level_cells_value have v: "minlevel (mg_matrices s1) = 0"
    "length (objects (mg_matrices s1)) = 2"
    "sm_val (objects (mg_matrices s1) ! Suc 0) (Suc 0) (Suc 0) = Finite 4"
    by simp_all
  obtain A x b where "apply_zero_boundary_values interval_library s1 =
      s1\<lparr>system_matrix := A, solution := x, system_rhs := b\<rparr>"
    using apply_zero_boundary_values_frame by blast
  then have m: "mg_matrices (apply_zero_boundary_values interval_library s1) = mg_matrices s1"
    by simp
  have "assemble_multigrid 1 interval_library refined_setup =
      Inr (apply_zero_boundary_values interval_library s1)"
    using s1 by (simp add: assemble_multigrid_def)
  moreover have "MGLevelObject_get (mg_matrices (apply_zero_boundary_values interval_library s1)) 1 =
      Inr (objects (mg_matrices s1) ! Suc 0)"
    by (simp add: m MGLevelObject_get_def MGLevelObject_in_range_def v)
  ultimately show ?thesis
    using v(3) by auto
qed

text \<open>
  Claim C7 fails on the code. \<^verbatim>\<open>assemble_multigrid\<close> ends with the block that
  interpolates the boundary values and applies them to \<^verbatim>\<open>system_matrix\<close>, \<^verbatim>\<open>solution\<close>
  and \<^verbatim>\<open>system_rhs\<close>. On the interval refined once, right after the setup step, the
  global matrix entry \<open>(0, 0)\<close> is 0 before the level assembler runs and 1 after.
\<close>

theorem level_assembler_changes_global_matrix:
  "\<exists>s'. assemble_multigrid 1 interval_library refined_setup = Inr s'
       \<and> sm_val (system_matrix refined_setup) 0 0 = 0
       \<and> sm_val (system_matrix s') 0 0 = 1
       \<and> system_matrix s' \<noteq> system_matrix refined_setup"
proof -
  obtain s1 where "assemble_multigrid_cells (Suc 0) interval_library refined_setup = Inr s1"
    using assemble_multigrid_refined_ok by blast
  then have ok: "assemble_multigrid 1 interval_library refined_setup =
      Inr (apply_zero_boundary_values interval_library s1)"
    by (simp add: assemble_multigrid_def)
  let ?s' = "apply_zero_boundary_values interval_library s1"
  have "fst (apply_boundary_values
             (interpolate_boundary_values interval_library (mg_dof_handler refined_setup) 0 ZeroFunction)
             (system_matrix refined_setup, solution refined_setup, system_rhs refined_setup))
        = system_matrix ?s'"
    using assemble_multigrid_global_system [OF ok] by (metis fst_conv)
  moreover have "sm_val (fst (apply_boundary_values
             (interpolate_boundary_values interval_library (mg_dof_handler refined_setup) 0 ZeroFunction)
             (system_matrix refined_setup, solution refined_setup, system_rhs refined_setup))) 0 0 = 1"
    by (simp add: interpolate_boundary_values_def interval_boundary_def interval_dofs_def
          refined_mesh_counts apply_boundary_values_def eliminate_dof_def)
  ultimately have after: "sm_val (system_matrix ?s') 0 0 = 1"
    by simp
  have before: "sm_val (system_matrix refined_setup) 0 0 = 0"
    by simp
  from after before have "system_matrix ?s' \<noteq> system_matrix refined_setup"
    by (metis zero_neq_one)
  with ok after before show ?thesis by blast
qed

section \<open>The solver on the interval refined once\<close>

lemma interval_load:
  "quadrature_load 2 (interval_fe_values t c) 0 = 1 / (2 * 2 ^ fst c)"
  "quadrature_load 2 (interval_fe_values t c) (Suc 0) = 1 / (2 * 2 ^ fst c)"
  by (simp_all add: quadrature_load_def interval_fe_values_def upt_2 add_divide_distrib [symmetric])

lemma refined_boundary_values:
  assumes "mg_dof_handler s = interval_dofs \<lparr>levels = [[Refined], [Active, Active]]\<rparr>"
  shows "interpolate_boundary_values interval_library (mg_dof_handler s) 0 ZeroFunction =
           [(0, 0), (2, 0)]"
  by (simp add: interpolate_boundary_values_def interval_boundary_def assms interval_dofs_def
        refined_mesh_counts ZeroFunction_def)

lemma refined_cells_rhs:
  "vec_val (system_rhs (assemble_system_cells (Suc 0) interval_library refined_setup)) (Suc 0) = 1 / 2"
  by (simp add: assemble_system_cells_closed_form refined_mesh_counts upt_2 interval_load
        interval_dofs_def refined_setup_def)

lemma refined_system_matrix:
  assumes "i < 3" and "j < 3"
  shows "sm_val (system_matrix refined_system) i j =
           (if i = Suc 0 \<and> j = Suc 0 then 4 else if i = j then 1 else 0)"
proof -
  have dh: "mg_dof_handler (assemble_system_cells (Suc 0) interval_library refined_setup) =
        interval_dofs \<lparr>levels = [[Refined], [Active, Active]]\<rparr>"
    by (simp add: assemble_system_cells_keeps)
  have mid: "sm_val (system_matrix (assemble_system_cells (Suc 0) interval_library refined_setup))
               (Suc 0) (Suc 0) = 4"
    by (simp add: interior_entry_cells)
  from assms have "i = 0 \<or> i = Suc 0 \<or> i = 2" "j = 0 \<or> j = Suc 0 \<or> j = 2"
    by auto
  then show ?thesis
    by (auto simp: refined_system_def assemble_system_def apply_zero_boundary_values_def Let_def
          refined_boundary_values [OF dh] apply_boundary_values_def eliminate_dof_def mid)
qed

lemma refined_system_rhs:
  "vec_size (system_rhs refined_system) = 3"
  "vec_val (system_rhs refined_system) 0 = 0"
  "vec_val (system_rhs refined_system) (Suc 0) = 1 / 2"
  "vec_val (system_rhs refined_system) 2 = 0"
proof -
  have dh: "mg_dof_handler (assemble_system_cells (Suc 0) interval_library refined_setup) =
        interval_dofs \<lparr>levels = [[Refined], [Active, Active]]\<rparr>"
    by (simp add: assemble_system_cells_keeps)
  show "vec_size (system_rhs refined_system) = 3"
    by (simp add: refined_system_def assemble_system_solution refined_setup_def)
  show "vec_val (system_rhs refined_system) 0 = 0"
    "vec_val (system_rhs refined_system) (Suc 0) = 1 / 2"
    "vec_val (system_rhs refined_system) 2 = 0"
    by (simp_all add: refined_system_def assemble_system_def apply_zero_boundary_values_def Let_def
          refined_boundary_values [OF dh] apply_boundary_values_def eliminate_dof_def
          refined_cells_rhs)
qed

lemma refined_system_solution:
  "solution refined_system = \<lparr>vec_size = 3, vec_val = (\<lambda>i. 0)\<rparr>"
  by (simp add: refined_system_def assemble_system_solution refined_setup_def)

lemma upt_3: "[0..<3] = [0, Suc 0, 2]"
  by (simp add: upt_rec numeral_3_eq_3 numeral_2_eq_2)

lemma refined_start_residual:
  "cg_residual interval_library
     (cg_states interval_library (system_matrix refined_system)
        (precondition_SSOR interval_library (system_matrix refined_system) (12 / 10))
        (solution refined_system) (system_rhs refined_system) 0) = 1 / 2"
  by (simp add: cg_states_def pcg_start_def Let_def vec_axpy_def vmult_def
        refined_system_rhs refined_system_solution upt_3)


lemma interval_kernel_simps2 [simp]:
  "cg_step interval_library = pcg_step"
  "cg_iterate interval_library = pcg_x"
  "precondition_SSOR interval_library = ssor_step"
  by (simp_all add: interval_library_def)

lemma refined_start_state:
  "cg_states interval_library (system_matrix refined_system)
        (ssor_step (system_matrix refined_system) (6 / 5))
        (solution refined_system) (system_rhs refined_system) 0 =
     \<lparr>pcg_x = \<lparr>vec_size = 3, vec_val = (\<lambda>i. 0)\<rparr>,
      pcg_r = \<lparr>vec_size = 3, vec_val = vec_val (system_rhs refined_system)\<rparr>,
      pcg_z = ssor_step (system_matrix refined_system) (6 / 5)
                \<lparr>vec_size = 3, vec_val = vec_val (system_rhs refined_system)\<rparr>,
      pcg_p = ssor_step (system_matrix refined_system) (6 / 5)
                \<lparr>vec_size = 3, vec_val = vec_val (system_rhs refined_system)\<rparr>\<rparr>"
  by (simp add: cg_states_def pcg_start_def Let_def vec_axpy_def vmult_def
        refined_system_rhs refined_system_solution)

lemma refined_ssor:
  "ssor_step (system_matrix refined_system) (6 / 5)
     \<lparr>vec_size = 3, vec_val = vec_val (system_rhs refined_system)\<rparr> =
   \<lparr>vec_size = 3, vec_val = (\<lambda>i. if i = Suc 0 then 3 / 25 else 0)\<rparr>"
  by (simp add: ssor_step_def Let_def upt_3 upt_rec refined_system_matrix refined_system_rhs
        refined_system_rhs(4) [unfolded numeral_2_eq_2] fun_eq_iff)


lemma refined_first_state:
  "cg_states interval_library (system_matrix refined_system)
        (ssor_step (system_matrix refined_system) (6 / 5))
        (solution refined_system) (system_rhs refined_system) (Suc 0) =
     pcg_step (system_matrix refined_system) (ssor_step (system_matrix refined_system) (6 / 5))
       \<lparr>pcg_x = \<lparr>vec_size = 3, vec_val = (\<lambda>i. 0)\<rparr>,
        pcg_r = \<lparr>vec_size = 3, vec_val = vec_val (system_rhs refined_system)\<rparr>,
        pcg_z = \<lparr>vec_size = 3, vec_val = (\<lambda>i. if i = Suc 0 then 3 / 25 else 0)\<rparr>,
        pcg_p = \<lparr>vec_size = 3, vec_val = (\<lambda>i. if i = Suc 0 then 3 / 25 else 0)\<rparr>\<rparr>"
proof -
  have "cg_states interval_library (system_matrix refined_system)
        (ssor_step (system_matrix refined_system) (6 / 5))
        (solution refined_system) (system_rhs refined_system) (Suc 0) =
      pcg_step (system_matrix refined_system) (ssor_step (system_matrix refined_system) (6 / 5))
        (cg_states interval_library (system_matrix refined_system)
          (ssor_step (system_matrix refined_system) (6 / 5))
          (solution refined_system) (system_rhs refined_system) 0)"
    by (simp add: cg_states_def)
  then show ?thesis
    by (simp only: refined_start_state refined_ssor)
qed

lemma refined_first_step:
  "vec_size (pcg_r (cg_states interval_library (system_matrix refined_system)
        (ssor_step (system_matrix refined_system) (6 / 5))
        (solution refined_system) (system_rhs refined_system) (Suc 0))) = 3"
  "vec_val (pcg_r (cg_states interval_library (system_matrix refined_system)
        (ssor_step (system_matrix refined_system) (6 / 5))
        (solution refined_system) (system_rhs refined_system) (Suc 0))) 0 = 0"
  "vec_val (pcg_r (cg_states interval_library (system_matrix refined_system)
        (ssor_step (system_matrix refined_system) (6 / 5))
        (solution refined_system) (system_rhs refined_system) (Suc 0))) (Suc 0) = 0"
  "vec_val (pcg_r (cg_states interval_library (system_matrix refined_system)
        (ssor_step (system_matrix refined_system) (6 / 5))
        (solution refined_system) (system_rhs refined_system) (Suc 0))) 2 = 0"
  "vec_val (pcg_x (cg_states interval_library (system_matrix refined_system)
        (ssor_step (system_matrix refined_system) (6 / 5))
        (solution refined_system) (system_rhs refined_system) (Suc 0))) (Suc 0) = 1 / 8"
  unfolding refined_first_state
  by (simp_all add: pcg_step_def Let_def vmult_def vec_dot_def vec_axpy_def upt_3
        refined_system_matrix refined_system_rhs)

lemma refined_first_residual:
  "cg_residual interval_library
     (cg_states interval_library (system_matrix refined_system)
        (precondition_SSOR interval_library (system_matrix refined_system) (6 / 5))
        (solution refined_system) (system_rhs refined_system) (Suc 0)) = 0"
  by (simp add: refined_first_step upt_3)


theorem solve_stopping_rule_witness:
  "(\<exists>x. solve interval_library refined_system =
          Inr (refined_system\<lparr>solution := x, cout := cout refined_system @ [CGIterations 1]\<rparr>)
        \<and> vec_val x 1 = 1 / 8)
   \<and> solve (constant_residual_library 1) refined_setup = Inl (NoConvergence 1000 1)"
proof -
  define K where "K = cg_states interval_library (system_matrix refined_system)
      (precondition_SSOR interval_library (system_matrix refined_system) (12 / 10))
      (solution refined_system) (system_rhs refined_system)"
  have r0: "cg_residual interval_library (K 0) = 1 / 2"
    unfolding K_def by (rule refined_start_residual)
  have r1: "cg_residual interval_library (K (Suc 0)) = 0"
    using refined_first_residual by (simp add: K_def)
  have x1: "vec_val (cg_iterate interval_library (K (Suc 0))) 1 = 1 / 8"
    using refined_first_step(5) by (simp add: K_def)
  have "cg_residual interval_library (K (Suc 0)) < 1 / 10 ^ 12"
    unfolding r1 by simp
  then have "Suc 0 \<le> 1000 \<and> cg_residual interval_library (K (Suc 0)) < 1 / 10 ^ 12"
    by simp
  then have ex: "\<exists>j\<le>1000. cg_residual interval_library (K j) < 1 / 10 ^ 12"
    by blast
  from solve_stopping_rule [of interval_library refined_system, unfolded Let_def, folded K_def] ex
  obtain j where hit: "cg_residual interval_library (K j) < 1 / 10 ^ 12"
    and before: "\<forall>i<j. \<not> cg_residual interval_library (K i) < 1 / 10 ^ 12"
    and s: "solve interval_library refined_system =
      Inr (refined_system\<lparr>solution := cg_iterate interval_library (K j),
             cout := cout refined_system @ [CGIterations j]\<rparr>)"
    by (simp only: if_True) blast
  have "j \<noteq> 0"
  proof
    assume "j = 0"
    with hit have "cg_residual interval_library (K 0) < 1 / 10 ^ 12" by simp
    then show False unfolding r0 by simp
  qed
  moreover have "\<not> Suc 0 < j"
  proof
    assume "Suc 0 < j"
    with before have "\<not> cg_residual interval_library (K (Suc 0)) < 1 / 10 ^ 12" by blast
    then show False unfolding r1 by simp
  qed
  ultimately have "j = 1" by simp
  with s x1 have 1: "\<exists>x. solve interval_library refined_system =
          Inr (refined_system\<lparr>solution := x, cout := cout refined_system @ [CGIterations 1]\<rparr>)
        \<and> vec_val x 1 = 1 / 8"
    by auto
  have "\<not> (\<exists>j\<le>1000::nat. (1::real) < 1 / 10 ^ 12)"
    by simp
  with solve_stopping_rule [of "constant_residual_library 1" refined_setup]
  have 2: "solve (constant_residual_library 1) refined_setup = Inl (NoConvergence 1000 1)"
    unfolding Let_def constant_residual by (simp only: if_False)
  from 1 2 show ?thesis by blast
qed

section \<open>The level assembler on the unit square\<close>




lemma square_library_simps [simp]:
  "fe_dofs_per_cell square_library = 4"
  "n_quadrature_points square_library = 4"
  "distribute_dofs square_library = square_dofs"
  "fe_values_reinit square_library = square_fe_values"
  "boundary_dofs square_library = square_boundary"
  by (simp_all add: square_library_def)









end
